theory Spec2Isabelle
  imports Main "HOL-Library.AList"
begin

section \<open>Values, types and errors of the Python program\<close>

text \<open>
  Python floats are kept abstract: no claim below depends on the value of a float,
  only on the fact that a value \<^emph>\<open>is\<close> a float (true division of two ints yields one).
\<close>

typedecl pyfloat

instantiation pyfloat :: equal
begin
definition equal_pyfloat :: "pyfloat \<Rightarrow> pyfloat \<Rightarrow> bool" where
  "equal_pyfloat a b = (a = b)"
instance by standard (simp add: equal_pyfloat_def)
end

text \<open>JSON-like Python values. A dict is an association list (insertion order kept).\<close>

datatype json =
    JNull
  | JBool bool
  | JInt int
  | JFloat pyfloat
  | JStr string
  | JList "json list"
  | JDict "(string \<times> json) list"

text \<open>The Python type objects that \<open>utils.type_for\<close> and \<open>Link.return_type\<close> hand out.\<close>

datatype pytype = TStr | TInt | TFloat | TBool | TList | TDict | TNone | TObject

datatype error =
    TypeError
  | ValueError
  | KeyError
  | IndexError
  | AttributeError
  | AssertionError
  | ZeroDivisionError
  | NotImplementedError
  | ValidationError
  | TransportError
  | StopIteration
  | OverflowError
  | OneOfException "error list"
  | NotModelled

text \<open>The numbers among the values: a \<open>bool\<close> is an \<open>int\<close> in arithmetic.\<close>

datatype pynum = NInt int | NFloat pyfloat

fun as_num :: "json \<Rightarrow> pynum option" where
  "as_num (JInt i) = Some (NInt i)"
| "as_num (JBool b) = Some (NInt (if b then 1 else 0))"
| "as_num (JFloat f) = Some (NFloat f)"
| "as_num _ = None"

text \<open>
  The collaborators that are not part of \<open>routes.py\<close> are parameters of the model:
  \<open>utils.type_for\<close>, \<open>jsonschema.validate\<close> (\<open>False\<close>: it raises), the
  registry \<open>data_types.for_key\<close>, and the parts of the builtin conversions
  \<open>str()\<close>, \<open>int()\<close>, \<open>float()\<close>, \<open>bool()\<close>, \<open>dict()\<close> that parse or
  format text or touch floats. Float arithmetic is a parameter as well:
  \<open>num_truediv\<close> is the operator \<open>/\<close> on two numbers, which yields a float
  or raises (division by zero, overflow); \<open>float_mul\<close> and \<open>num_sub_float\<close>
  are \<open>*\<close> and \<open>-\<close> with a float operand; \<open>float_gt_int\<close> is
  \<open>>\<close> between a float and an int. \<open>sys_maxsize\<close> is \<open>sys.maxsize\<close>,
  the largest value that \<open>len()\<close> can return.
\<close>

record env =
  type_for :: "json \<Rightarrow> error + pytype list"
  validate :: "json \<Rightarrow> json \<Rightarrow> bool"
  key_serialize :: "string \<Rightarrow> json \<Rightarrow> error + json"
  key_resolve :: "string \<Rightarrow> json \<Rightarrow> error + json"
  py_str :: "json \<Rightarrow> string"
  int_of_str :: "string \<Rightarrow> int option"
  int_of_float :: "pyfloat \<Rightarrow> error + int"
  float_of_int :: "int \<Rightarrow> error + pyfloat"
  float_of_str :: "string \<Rightarrow> pyfloat option"
  float_nonzero :: "pyfloat \<Rightarrow> bool"
  py_dict :: "json \<Rightarrow> error + json"
  num_truediv :: "pynum \<Rightarrow> pynum \<Rightarrow> error + pyfloat"
  float_mul :: "pyfloat \<Rightarrow> pynum \<Rightarrow> pyfloat"
  num_sub_float :: "pynum \<Rightarrow> pyfloat \<Rightarrow> pyfloat"
  float_gt_int :: "pyfloat \<Rightarrow> int \<Rightarrow> bool"
  sys_maxsize :: int

text \<open>Schema keywords (\<open>constants.py\<close>), as section 6 of the specification names them;
  \<open>TYPE\<close> is called \<open>TYPE_KEY\<close> here.\<close>

definition TYPE_KEY :: string where "TYPE_KEY = ''type''"
definition PROPERTIES :: string where "PROPERTIES = ''properties''"
definition ITEMS :: string where "ITEMS = ''items''"
definition ONE_OF :: string where "ONE_OF = ''oneOf''"
definition READ_ONLY :: string where "READ_ONLY = ''readOnly''"
definition ADDITIONAL_PROPERTIES :: string where "ADDITIONAL_PROPERTIES = ''additionalProperties''"
definition REF :: string where "REF = ''$ref''"
definition URI :: string where "URI = ''$uri''"
definition URL :: string where "URL = ''url''"

subsection \<open>Builtins\<close>

text \<open>Truthiness of a value (\<open>if x:\<close>, \<open>bool(x)\<close>).\<close>

fun truthy :: "env \<Rightarrow> json \<Rightarrow> bool" where
  "truthy E JNull = False"
| "truthy E (JBool b) = b"
| "truthy E (JInt i) = (i \<noteq> 0)"
| "truthy E (JFloat f) = float_nonzero E f"
| "truthy E (JStr s) = (s \<noteq> [])"
| "truthy E (JList xs) = (xs \<noteq> [])"
| "truthy E (JDict kvs) = (kvs \<noteq> [])"

text \<open>Calling a type object on one argument: \<open>self.types[0](obj)\<close>.\<close>

fun py_call :: "env \<Rightarrow> pytype \<Rightarrow> json \<Rightarrow> error + json" where
  "py_call E TStr obj = Inr (JStr (py_str E obj))"
| "py_call E TInt (JInt i) = Inr (JInt i)"
| "py_call E TInt (JBool b) = Inr (JInt (if b then 1 else 0))"
| "py_call E TInt (JFloat f) = (case int_of_float E f of Inl e \<Rightarrow> Inl e | Inr i \<Rightarrow> Inr (JInt i))"
| "py_call E TInt (JStr s) = (case int_of_str E s of None \<Rightarrow> Inl ValueError | Some i \<Rightarrow> Inr (JInt i))"
| "py_call E TInt _ = Inl TypeError"
| "py_call E TFloat (JFloat f) = Inr (JFloat f)"
| "py_call E TFloat (JInt i) = (case float_of_int E i of Inl e \<Rightarrow> Inl e | Inr f \<Rightarrow> Inr (JFloat f))"
| "py_call E TFloat (JBool b) =
     (case float_of_int E (if b then 1 else 0) of Inl e \<Rightarrow> Inl e | Inr f \<Rightarrow> Inr (JFloat f))"
| "py_call E TFloat (JStr s) = (case float_of_str E s of None \<Rightarrow> Inl ValueError | Some f \<Rightarrow> Inr (JFloat f))"
| "py_call E TFloat _ = Inl TypeError"
| "py_call E TBool obj = Inr (JBool (truthy E obj))"
| "py_call E TList (JList xs) = Inr (JList xs)"
| "py_call E TList (JStr s) = Inr (JList (map (\<lambda>c. JStr [c]) s))"
| "py_call E TList (JDict kvs) = Inr (JList (map (\<lambda>kv. JStr (fst kv)) kvs))"
| "py_call E TList _ = Inl TypeError"
| "py_call E TDict obj = py_dict E obj"
| "py_call E TNone obj = Inl TypeError"
| "py_call E TObject obj = Inl TypeError"

text \<open>\<open>obj.get(key, default)\<close>: only a dict has the method.\<close>

fun py_get_default :: "json \<Rightarrow> string \<Rightarrow> json \<Rightarrow> error + json" where
  "py_get_default (JDict kvs) k d = Inr (case map_of kvs k of None \<Rightarrow> d | Some v \<Rightarrow> v)"
| "py_get_default _ k d = Inl AttributeError"

definition py_get :: "json \<Rightarrow> string \<Rightarrow> error + json" where
  "py_get obj k = py_get_default obj k JNull"

text \<open>\<open>obj.keys()\<close>.\<close>

fun py_keys :: "json \<Rightarrow> error + string list" where
  "py_keys (JDict kvs) = Inr (map fst kvs)"
| "py_keys _ = Inl AttributeError"

text \<open>The order-preserving removal of duplicates of \<open>OneOf.types\<close> (first occurrence kept).\<close>

fun unique :: "'a list \<Rightarrow> 'a list \<Rightarrow> 'a list" where
  "unique seen [] = []"
| "unique seen (x # xs) = (if x \<in> set seen then unique seen xs else x # unique (x # seen) xs)"

section \<open>AttributeMapper, OneOf, Items\<close>

text \<open>
  The class of a mapper object is a field, since \<open>_parse_definition\<close> assigns
  \<open>self.__class__\<close>. The keys of \<open>_attributes\<close> are property names, or indices
  for a \<open>OneOf\<close>.
\<close>

datatype pyclass = CAttributeMapper | COneOf | CItems

datatype pykey = KStr string | KInt nat

datatype mapper =
  Mapper (cls: pyclass) (read_only: bool) (additional_properties: bool)
         (defn: json) (attributes: "(pykey \<times> mapper) list")

text \<open>\<open>defn\<close> is the field \<open>self.definition\<close>.\<close>

lemma size_map_of_attributes:
  "map_of (attributes m) k = Some a \<Longrightarrow> size a < size m"
proof (cases m)
  case (Mapper c ro ap d as)
  have "map_of as k = Some a \<Longrightarrow> size a < Suc (size_list (size_prod (\<lambda>x. 0) size) as)" for as
    by (induction as) (auto split: if_splits)
  with Mapper show "map_of (attributes m) k = Some a \<Longrightarrow> size a < size m"
    by simp
qed

lemma size_values_attributes:
  "size_list (size \<circ> snd) (attributes m) < size m"
proof (cases m)
  case (Mapper c ro ap d as)
  have "size_list (size \<circ> snd) as \<le> size_list (size_prod (\<lambda>x. 0) size) (as :: (pykey \<times> mapper) list)" for as
    by (induction as) auto
  with Mapper show ?thesis
    by (simp add: le_imp_less_Suc)
qed

lemma size_in_attributes:
  "ka \<in> set (attributes m) \<Longrightarrow> size (snd ka) < size m"
proof -
  have "ka \<in> set as \<Longrightarrow> size (snd ka) < size_list (\<lambda>x. size (snd x)) as"
    for as :: "(pykey \<times> mapper) list"
    by (induction as) auto
  then show "ka \<in> set (attributes m) \<Longrightarrow> size (snd ka) < size m"
    using size_values_attributes [of m] by (fastforce simp: comp_def)
qed

text \<open>The operator \<open>in\<close> between two strings.\<close>

fun is_substring :: "string \<Rightarrow> string \<Rightarrow> bool" where
  "is_substring p [] = (p = [])"
| "is_substring p (c # s) = (take (length p) (c # s) = p \<or> is_substring p s)"

lemma size_map_of_json:
  "map_of kvs k = Some v \<Longrightarrow> size v < size_list (size_prod (\<lambda>x. 0) size) kvs"
  by (induction kvs) (auto split: if_splits)

subsection \<open>Construction from a schema fragment\<close>

text \<open>
  \<open>AttributeMapper_init\<close> is \<open>AttributeMapper.__init__\<close> and
  \<open>parse_definition\<close> the method \<open>_parse_definition\<close>, with the fields assigned
  so far as arguments: the class, \<open>read_only\<close>, \<open>additional_properties\<close> (both
  only ever tested for truth) and \<open>definition\<close>. \<open>init_properties\<close> and
  \<open>init_variants\<close> are its two loops. A fragment that is not a dict has no
  \<open>get\<close>, so a constructor call on it raises; \<open>_parse_definition\<close> can meet
  one after \<open>self.definition = self.definition[ITEMS]\<close>, where \<open>in\<close> is
  membership on a list and the substring test on a string.
\<close>

function (sequential)
  AttributeMapper_init :: "env \<Rightarrow> json \<Rightarrow> error + mapper"
  and parse_definition :: "env \<Rightarrow> pyclass \<Rightarrow> bool \<Rightarrow> bool \<Rightarrow> json \<Rightarrow> error + mapper"
  and init_properties :: "env \<Rightarrow> (string \<times> json) list \<Rightarrow> error + (pykey \<times> mapper) list"
  and init_variants :: "env \<Rightarrow> nat \<Rightarrow> json list \<Rightarrow> error + (pykey \<times> mapper) list"
where
  "AttributeMapper_init E d =
     (case d of
        JDict kvs \<Rightarrow>
          parse_definition E CAttributeMapper
            (case map_of kvs READ_ONLY of None \<Rightarrow> False | Some v \<Rightarrow> truthy E v)
            (case map_of kvs ADDITIONAL_PROPERTIES of None \<Rightarrow> False | Some v \<Rightarrow> truthy E v)
            d
      | _ \<Rightarrow> Inl AttributeError)"
| "parse_definition E c ro ap d =
     (case d of
        JDict kvs \<Rightarrow>
          (case map_of kvs PROPERTIES of
             Some props \<Rightarrow>
               (case props of
                  JDict pkvs \<Rightarrow>
                    (case init_properties E pkvs of
                       Inl e \<Rightarrow> Inl e
                     | Inr attrs \<Rightarrow> Inr (Mapper c ro ap d attrs))
                | _ \<Rightarrow> Inl AttributeError)
           | None \<Rightarrow>
               (case map_of kvs ITEMS of
                  Some d' \<Rightarrow> parse_definition E CItems ro ap d'
                | None \<Rightarrow>
                    (case map_of kvs ONE_OF of
                       Some ds \<Rightarrow>
                         (case ds of
                            JList xs \<Rightarrow>
                              (case init_variants E 0 xs of
                                 Inl e \<Rightarrow> Inl e
                               | Inr attrs \<Rightarrow> Inr (Mapper COneOf ro ap ds attrs))
                          | JStr s \<Rightarrow> if s = [] then Inr (Mapper COneOf ro ap ds []) else Inl AttributeError
                          | JDict okvs \<Rightarrow>
                              if okvs = [] then Inr (Mapper COneOf ro ap ds []) else Inl AttributeError
                          | _ \<Rightarrow> Inl TypeError)
                     | None \<Rightarrow> Inr (Mapper c ro ap d []))))
      | JList xs \<Rightarrow>
          if JStr PROPERTIES \<in> set xs \<or> JStr ITEMS \<in> set xs \<or> JStr ONE_OF \<in> set xs
          then Inl TypeError else Inr (Mapper c ro ap d [])
      | JStr s \<Rightarrow>
          if is_substring PROPERTIES s \<or> is_substring ITEMS s \<or> is_substring ONE_OF s
          then Inl TypeError else Inr (Mapper c ro ap d [])
      | _ \<Rightarrow> Inl TypeError)"
| "init_properties E [] = Inr []"
| "init_properties E ((name, prop) # rest) =
     (case AttributeMapper_init E prop of
        Inl e \<Rightarrow> Inl e
      | Inr a \<Rightarrow>
          (case init_properties E rest of
             Inl e \<Rightarrow> Inl e
           | Inr attrs \<Rightarrow> Inr ((KStr name, a) # attrs)))"
| "init_variants E index [] = Inr []"
| "init_variants E index (d # rest) =
     (case AttributeMapper_init E d of
        Inl e \<Rightarrow> Inl e
      | Inr a \<Rightarrow>
          (case init_variants E (Suc index) rest of
             Inl e \<Rightarrow> Inl e
           | Inr attrs \<Rightarrow> Inr ((KInt index, a) # attrs)))"
  by pat_completeness auto
termination
  by (relation "measure (\<lambda>x. case x of
        Inl (Inl (E, d)) \<Rightarrow> 2 * size d + 1
      | Inl (Inr (E, c, ro, ap, d)) \<Rightarrow> 2 * size d
      | Inr (Inl (E, pkvs)) \<Rightarrow> 2 * size_list (size_prod (\<lambda>x. 0) size) pkvs + 2
      | Inr (Inr (E, index, xs)) \<Rightarrow> 2 * size_list size xs + 2)")
     (auto dest: size_map_of_json)

lemma size_values_attributes4:
  "4 * size_list (size \<circ> snd) (attributes m) < Suc (4 * size m)"
  using size_values_attributes [of m] by simp

text \<open>
  \<open>types\<close>: \<open>utils.type_for(self.definition.get(TYPE, "object"))\<close>; \<open>OneOf\<close>
  overrides it with the types of its variants, duplicates removed.
\<close>

fun concat_types :: "(error + pytype list) list \<Rightarrow> error + pytype list" where
  "concat_types [] = Inr []"
| "concat_types (r # rs) =
     (case r of Inl e \<Rightarrow> Inl e
      | Inr ts \<Rightarrow> (case concat_types rs of Inl e \<Rightarrow> Inl e | Inr us \<Rightarrow> Inr (ts @ us)))"

function types :: "env \<Rightarrow> mapper \<Rightarrow> error + pytype list" where
  "types E m =
     (if cls m = COneOf then
        (case concat_types (map (\<lambda>ka. types E (snd ka)) (attributes m)) of
           Inl e \<Rightarrow> Inl e
         | Inr all_types \<Rightarrow> Inr (unique [] all_types))
      else
        (case py_get_default (defn m) TYPE_KEY (JStr ''object'') of
           Inl e \<Rightarrow> Inl e
         | Inr t \<Rightarrow> type_for E t))"
  by pat_completeness auto
termination
  by (relation "measure (\<lambda>(E, m). size m)") (auto simp: size_in_attributes)

declare types.simps [simp del]

text \<open>\<open>required\<close>: \<open>type(None) in self.types\<close>.\<close>

definition required :: "env \<Rightarrow> mapper \<Rightarrow> error + bool" where
  "required E m = (case types E m of Inl e \<Rightarrow> Inl e | Inr ts \<Rightarrow> Inr (TNone \<in> set ts))"

text \<open>\<open>empty_value\<close>, which \<open>Items\<close> overrides.\<close>

definition AttributeMapper_empty_value :: "env \<Rightarrow> mapper \<Rightarrow> error + json" where
  "AttributeMapper_empty_value E m =
     (if read_only m then Inr JNull
      else case types E m of
             Inl e \<Rightarrow> Inl e
           | Inr ts \<Rightarrow>
               if TNone \<in> set ts then Inr JNull
               else if TDict \<in> set ts then Inr (JDict [])
               else Inr JNull)"

definition Items_empty_value :: "env \<Rightarrow> mapper \<Rightarrow> error + json" where
  "Items_empty_value E m =
     (case types E m of
        Inl e \<Rightarrow> Inl e
      | Inr ts \<Rightarrow> if TNone \<in> set ts then Inr JNull else Inr (JList []))"

definition empty_value :: "env \<Rightarrow> mapper \<Rightarrow> error + json" where
  "empty_value E m =
     (if cls m = CItems then Items_empty_value E m else AttributeMapper_empty_value E m)"

subsection \<open>serialize\<close>

text \<open>
  \<open>serialize\<close> is the method as dispatched on the class of the object;
  \<open>AttributeMapper_serialize\<close> is the body of the base class, which \<open>Items\<close>
  also reaches through \<open>super()\<close>, with \<open>self\<close> still the \<open>Items\<close> object.
  \<open>serialize_keys\<close> is the loop \<open>for key in iterator\<close> with the dict
  \<open>value\<close> built so far, \<open>OneOf_loop\<close> the loop over the variants with the
  errors collected so far (\<open>Inl errors\<close> when every variant has raised), and
  \<open>Items_loop\<close> the list comprehension.
\<close>

function (sequential)
  serialize :: "env \<Rightarrow> mapper \<Rightarrow> json \<Rightarrow> bool \<Rightarrow> error + json"
  and AttributeMapper_serialize :: "env \<Rightarrow> mapper \<Rightarrow> json \<Rightarrow> bool \<Rightarrow> error + json"
  and serialize_keys ::
    "env \<Rightarrow> mapper \<Rightarrow> json \<Rightarrow> pykey list \<Rightarrow> (string \<times> json) list \<Rightarrow> error + (string \<times> json) list"
  and OneOf_loop :: "env \<Rightarrow> mapper list \<Rightarrow> json \<Rightarrow> bool \<Rightarrow> error list \<Rightarrow> error list + json"
  and Items_loop :: "env \<Rightarrow> mapper \<Rightarrow> json list \<Rightarrow> error + json list"
where
  "serialize E m obj valid =
     (case cls m of
        CAttributeMapper \<Rightarrow> AttributeMapper_serialize E m obj valid
      | COneOf \<Rightarrow>
          (if obj = JNull then Inr JNull
           else case OneOf_loop E (map snd (attributes m)) obj valid [] of
                  Inr v \<Rightarrow> Inr v
                | Inl errors \<Rightarrow>
                    (case required E m of
                       Inl e \<Rightarrow> Inl e
                     | Inr True \<Rightarrow> Inl (OneOfException errors)
                     | Inr False \<Rightarrow> Inr JNull))
      | CItems \<Rightarrow>
          (case (if obj = JNull then required E m else Inr False) of
             Inl e \<Rightarrow> Inl e
           | Inr True \<Rightarrow> Inr (JList [])
           | Inr False \<Rightarrow>
               (case obj of
                  JList iterable \<Rightarrow>
                    (case Items_loop E m iterable of Inl e \<Rightarrow> Inl e | Inr vs \<Rightarrow> Inr (JList vs))
                | _ \<Rightarrow> Inl AssertionError)))"
| "AttributeMapper_serialize E m obj valid =
     (case
        (if obj = JNull then empty_value E m
         else case types E m of
                Inl e \<Rightarrow> Inl e
              | Inr ts \<Rightarrow>
                  if TDict \<in> set ts then
                    (case (if additional_properties m
                           then (case py_keys obj of Inl e \<Rightarrow> Inl e | Inr ks \<Rightarrow> Inr (map KStr ks))
                           else Inr (map fst (attributes m))) of
                       Inl e \<Rightarrow> Inl e
                     | Inr iterator \<Rightarrow>
                         (case serialize_keys E m obj iterator [] of
                            Inl e \<Rightarrow> Inl e
                          | Inr kvs \<Rightarrow> Inr (JDict kvs)))
                  else (case ts of [] \<Rightarrow> Inl IndexError | t # _ \<Rightarrow> py_call E t obj))
      of
        Inl e \<Rightarrow> Inl e
      | Inr v \<Rightarrow>
          if valid then (if validate E v (defn m) then Inr v else Inl ValidationError)
          else Inr v)"
| "serialize_keys E m obj [] acc = Inr acc"
| "serialize_keys E m obj (KInt i # keys) acc = Inl AttributeError"
| "serialize_keys E m obj (KStr key # keys) acc =
     (case
        (if take 1 key = ''$'' then
           (case key_serialize E key obj of
              Inl NotImplementedError \<Rightarrow> py_get obj key
            | Inl e \<Rightarrow> Inl e
            | Inr v \<Rightarrow> Inr v)
         else
           (case py_get obj key of
              Inl e \<Rightarrow> Inl e
            | Inr v \<Rightarrow>
                (case map_of (attributes m) (KStr key) of
                   None \<Rightarrow> Inr v
                 | Some a \<Rightarrow> serialize E a v True)))
      of
        Inl e \<Rightarrow> Inl e
      | Inr val \<Rightarrow>
          serialize_keys E m obj keys (if val \<noteq> JNull then AList.update key val acc else acc))"
| "OneOf_loop E [] obj valid errors = Inl errors"
| "OneOf_loop E (attr # attrs) obj valid errors =
     (case serialize E attr obj valid of
        Inr v \<Rightarrow> Inr v
      | Inl e \<Rightarrow> OneOf_loop E attrs obj valid (errors @ [e]))"
| "Items_loop E m [] = Inr []"
| "Items_loop E m (element # iterable) =
     (case AttributeMapper_serialize E m element (truthy E (defn m)) of
        Inl e \<Rightarrow> Inl e
      | Inr v \<Rightarrow> (case Items_loop E m iterable of Inl e \<Rightarrow> Inl e | Inr vs \<Rightarrow> Inr (v # vs)))"
  by pat_completeness auto

termination
  by (relation "(\<lambda>x. case x of
        Inl (Inl (E, m, obj, valid)) \<Rightarrow> 4 * size m + 3
      | Inl (Inr (E, m, obj, valid)) \<Rightarrow> 4 * size m + 1
      | Inr (Inl (E, m, obj, keys, acc)) \<Rightarrow> 4 * size m
      | Inr (Inr (Inl (E, attrs, obj, valid, errors))) \<Rightarrow> 4 * size_list size attrs + 2
      | Inr (Inr (Inr (E, m, iterable))) \<Rightarrow> 4 * size m + 2)
     <*mlex*> measure (\<lambda>x. case x of
        Inr (Inl (E, m, obj, keys, acc)) \<Rightarrow> length keys
      | Inr (Inr (Inr (E, m, iterable))) \<Rightarrow> length iterable
      | _ \<Rightarrow> 0)")
     (auto simp: wf_mlex mlex_iff size_values_attributes4 dest: size_map_of_attributes)

declare serialize.simps [simp del] AttributeMapper_serialize.simps [simp del]


subsection \<open>resolve\<close>

text \<open>
  The test \<open>PROPERTIES in self.definition\<close> followed by
  \<open>list(self.definition[PROPERTIES].keys())[0]\<close>: the first declared property key,
  \<open>None\<close> when the test is false. On a list the test is membership and the
  subscript then raises; a string is not modelled further than that (substring test).
\<close>

fun first_property_key :: "json \<Rightarrow> error + string option" where
  "first_property_key (JDict kvs) =
     (case map_of kvs PROPERTIES of
        None \<Rightarrow> Inr None
      | Some props \<Rightarrow>
          (case py_keys props of
             Inl e \<Rightarrow> Inl e
           | Inr [] \<Rightarrow> Inl IndexError
           | Inr (k # _) \<Rightarrow> Inr (Some k)))"
| "first_property_key (JList xs) = (if JStr PROPERTIES \<in> set xs then Inl TypeError else Inr None)"
| "first_property_key (JStr s) = (if is_substring PROPERTIES s then Inl TypeError else Inr None)"
| "first_property_key _ = Inl TypeError"

definition AttributeMapper_resolve :: "env \<Rightarrow> mapper \<Rightarrow> json \<Rightarrow> error + json" where
  "AttributeMapper_resolve E m obj =
     (if obj = JNull then empty_value E m
      else case first_property_key (defn m) of
             Inl e \<Rightarrow> Inl e
           | Inr None \<Rightarrow> Inr obj
           | Inr (Some key) \<Rightarrow> key_resolve E key obj)"

text \<open>
  Iterating a value in a comprehension: a list gives its elements, a string its
  characters, a dict its keys; anything else is not iterable.
\<close>

fun py_iter :: "json \<Rightarrow> error + json list" where
  "py_iter (JList xs) = Inr xs"
| "py_iter (JStr s) = Inr (map (\<lambda>c. JStr [c]) s)"
| "py_iter (JDict kvs) = Inr (map (\<lambda>kv. JStr (fst kv)) kvs)"
| "py_iter _ = Inl TypeError"

fun Items_resolve_loop :: "env \<Rightarrow> mapper \<Rightarrow> json list \<Rightarrow> error + json list" where
  "Items_resolve_loop E m [] = Inr []"
| "Items_resolve_loop E m (element # iterable) =
     (case AttributeMapper_resolve E m element of
        Inl e \<Rightarrow> Inl e
      | Inr v \<Rightarrow> (case Items_resolve_loop E m iterable of Inl e \<Rightarrow> Inl e | Inr vs \<Rightarrow> Inr (v # vs)))"

text \<open>
  \<open>Items.resolve\<close> opens with \<open>if list is None\<close>: the builtin type \<open>list\<close>
  compared with \<open>None\<close>, not the argument. \<open>pyobj\<close> holds the two objects compared.
\<close>

datatype pyobj = PyNone | PyType pytype

definition Items_resolve :: "env \<Rightarrow> mapper \<Rightarrow> json \<Rightarrow> error + json" where
  "Items_resolve E m iterable =
     (if PyType TList = PyNone then empty_value E m
      else case py_iter iterable of
             Inl e \<Rightarrow> Inl e
           | Inr elements \<Rightarrow>
               (case Items_resolve_loop E m elements of Inl e \<Rightarrow> Inl e | Inr vs \<Rightarrow> Inr (JList vs)))"

function (sequential)
  resolve :: "env \<Rightarrow> mapper \<Rightarrow> json \<Rightarrow> error + json"
  and OneOf_resolve_loop :: "env \<Rightarrow> mapper list \<Rightarrow> json \<Rightarrow> error list \<Rightarrow> error + json"
where
  "resolve E m obj =
     (case cls m of
        CAttributeMapper \<Rightarrow> AttributeMapper_resolve E m obj
      | COneOf \<Rightarrow> OneOf_resolve_loop E (map snd (attributes m)) obj []
      | CItems \<Rightarrow> Items_resolve E m obj)"
| "OneOf_resolve_loop E [] obj errors = Inl (OneOfException errors)"
| "OneOf_resolve_loop E (attr # attrs) obj errors =
     (case resolve E attr obj of
        Inr v \<Rightarrow> Inr v
      | Inl e \<Rightarrow> OneOf_resolve_loop E attrs obj (errors @ [e]))"
  by pat_completeness auto
termination
  by (relation "measure (\<lambda>x. case x of
        Inl (E, m, obj) \<Rightarrow> 2 * size m + 1
      | Inr (E, attrs, obj, errors) \<Rightarrow> 2 * size_list size attrs)")
     (auto simp: less_imp_le_nat [OF size_values_attributes] less_Suc_eq_le)

declare resolve.simps [simp del]


section \<open>Route and Link\<close>

text \<open>
  A \<open>Link\<close> with its \<open>Route\<close>: \<open>keys\<close> is what \<open>utils.extract_keys\<close>
  found in the path, \<open>http_method\<close> the field \<open>method\<close>. The transport options are left out.
\<close>

record link =
  path :: string
  keys :: "string list"
  http_method :: string
  schema :: json
  target_schema :: json

definition is_instance :: "link \<Rightarrow> bool" where
  "is_instance l = (length (keys l) > 0)"

text \<open>
  The operator \<open>in\<close> with a string on the left, and the subscript with a string,
  on any value.
\<close>

fun py_in :: "string \<Rightarrow> json \<Rightarrow> error + bool" where
  "py_in k (JDict kvs) = Inr (k \<in> set (map fst kvs))"
| "py_in k (JList xs) = Inr (JStr k \<in> set xs)"
| "py_in k (JStr s) = Inr (is_substring k s)"
| "py_in k _ = Inl TypeError"

fun py_subscript_str :: "json \<Rightarrow> string \<Rightarrow> error + json" where
  "py_subscript_str (JDict kvs) k = (case map_of kvs k of None \<Rightarrow> Inl KeyError | Some v \<Rightarrow> Inr v)"
| "py_subscript_str _ k = Inl TypeError"

text \<open>
  \<open>return_type\<close> and \<open>input_type\<close> share one body, on \<open>target_schema\<close> and
  \<open>schema\<close>. The result is a type object, or \<open>None\<close> where the body falls off
  its end (a \<open>$ref\<close> other than \<open>"#"\<close>).
\<close>

definition schema_type :: "env \<Rightarrow> json \<Rightarrow> error + pyobj" where
  "schema_type E s =
     (case py_in TYPE_KEY s of
        Inl e \<Rightarrow> Inl e
      | Inr True \<Rightarrow>
          (case py_subscript_str s TYPE_KEY of
             Inl e \<Rightarrow> Inl e
           | Inr t \<Rightarrow>
               (case type_for E t of
                  Inl e \<Rightarrow> Inl e
                | Inr [] \<Rightarrow> Inl IndexError
                | Inr (ty # _) \<Rightarrow> Inr (PyType ty)))
      | Inr False \<Rightarrow>
          (case py_in REF s of
             Inl e \<Rightarrow> Inl e
           | Inr True \<Rightarrow>
               (case py_subscript_str s REF of
                  Inl e \<Rightarrow> Inl e
                | Inr r \<Rightarrow> if r = JStr ''#'' then Inr (PyType TObject) else Inr PyNone)
           | Inr False \<Rightarrow> Inr (PyType TNone)))"

definition return_type :: "env \<Rightarrow> link \<Rightarrow> error + pyobj" where
  "return_type E l = schema_type E (target_schema l)"

definition input_type :: "env \<Rightarrow> link \<Rightarrow> error + pyobj" where
  "input_type E l = schema_type E (schema l)"

section \<open>Requests\<close>

text \<open>
  What \<open>requests.request\<close> is called with, and what \<open>routes.py\<close> reads of the
  response: whether \<open>utils.validate_response_status\<close> accepts it, the header
  \<open>X-Total-Count\<close>, \<open>res.links\<close> (relation name and the URL
  \<open>link[URL]\<close>, in order) and \<open>res.json()\<close>.
\<close>

record request =
  req_method :: string
  req_url :: string
  req_body :: json
  req_params :: json

record response =
  status_ok :: bool
  total_count :: "string option"
  res_links :: "(string \<times> string) list"
  res_json :: json

text \<open>
  The client side collaborators: the base URL of the client; the transport, which
  answers a request after the requests made so far; \<open>utils.dictionary_to_params\<close>;
  \<open>str.format\<close> on the URL with the values of the route keys;
  \<open>utils.params_to_dictionary(urlparse(url).query)\<close>, which may raise;
  \<open>utils.evaluate_ref\<close> on a URI and an item (the client is fixed); the last component
  of \<open>utils.parse_uri\<close>. Two more parameters stand for parts of a resource object that
  are not modelled as computations: the value of an attribute other than \<open>id\<close> read
  for a route key, as a function of \<open>_id\<close> and \<open>_instance\<close>, and the text
  that \<open>__str__\<close> formats from the identity and \<open>_instance\<close>.
\<close>

record net =
  base_url :: string
  transport :: "request list \<Rightarrow> request \<Rightarrow> response"
  dictionary_to_params :: "(string \<times> json) list \<Rightarrow> json"
  url_format :: "string \<Rightarrow> (string \<times> json) list \<Rightarrow> error + string"
  url_query :: "string \<Rightarrow> error + (string \<times> json) list"
  evaluate_ref :: "json \<Rightarrow> json \<Rightarrow> error + json"
  uri_id :: "json \<Rightarrow> error + json"
  attribute_value :: "string \<Rightarrow> json \<Rightarrow> json \<Rightarrow> json"
  resource_repr :: "json \<Rightarrow> json \<Rightarrow> string"

text \<open>The world is the list of the requests made so far.\<close>

type_synonym world = "request list"

definition do_request :: "net \<Rightarrow> world \<Rightarrow> request \<Rightarrow> response \<times> world" where
  "do_request N w r = (transport N w r, w @ [r])"

section \<open>Proxies and resources: the objects\<close>

text \<open>
  A binding is \<open>None\<close>, a resource class, or a resource instance, which is an
  object with an identity: the proxies bound to it hold a reference, not a copy.
\<close>

datatype binding = NoBinding | ClassBinding | InstanceBinding nat

datatype proxy_class = CLinkProxy | CVoidLinkProxy | CListLinkProxy | CObjectLinkProxy

text \<open>
  The fields of a proxy: \<open>_link\<close>, \<open>_binding\<close>, \<open>_attributes\<close>,
  \<open>_kwargs\<close>, and for a list proxy \<open>_collection\<close> (\<open>JNull\<close> is
  \<open>None\<close>), \<open>_total\<close> and the constructor argument \<open>links\<close>, of which
  the code only ever assigns items (\<open>JNull\<close>: the fresh dict of \<open>links or {}\<close>).
  \<open>dyn\<close> holds the attributes that \<open>setattr\<close> adds to the object: the
  accessor of a property of the input schema (the closure \<open>new_proxy\<close> of
  \<open>_proxy(prop)\<close>), or the proxy of a relation found in a response.
\<close>

record proxy_core =
  kind :: proxy_class
  p_link :: link
  p_binding :: binding
  p_attributes :: "(string \<times> mapper) list"
  p_kwargs :: "(string \<times> json) list"
  links_arg :: json
  collection :: json
  total :: int

datatype 'p dynattr = Accessor string | Related 'p

datatype proxy = Proxy (core: proxy_core) (dyn: "(string \<times> proxy dynattr) list")

text \<open>
  A resource: the class attributes that \<open>factory\<close> sets (\<open>_attributes\<close>, the
  type-level links that become \<open>LinkProxy\<close> descriptors, \<open>_instance_links\<close>)
  and the instance fields \<open>_id\<close>, \<open>_instance\<close> and the proxies that
  \<open>_create_proxies\<close> sets on the instance.
\<close>

record resource =
  r_attributes :: "(string \<times> mapper) list"
  type_links :: "(string \<times> link) list"
  instance_links :: "(string \<times> link) list"
  r_id :: json
  r_instance :: json
  r_proxies :: "(string \<times> proxy) list"

text \<open>The state: the requests made so far and the resource objects by identity.\<close>

record state =
  world :: world
  heap :: "nat \<Rightarrow> resource"

section \<open>Resource: id and valid_instance\<close>

text \<open>
  The property \<open>id\<close>; it assigns \<open>_id\<close>, so the resource is returned too.
\<close>

definition Resource_id :: "env \<Rightarrow> net \<Rightarrow> resource \<Rightarrow> (error + json) \<times> resource" where
  "Resource_id E N r =
     (if r_id r = JNull then
        (case (if truthy E (r_instance r) then py_in URI (r_instance r) else Inr False) of
           Inl e \<Rightarrow> (Inl e, r)
         | Inr False \<Rightarrow> (Inr (r_id r), r)
         | Inr True \<Rightarrow>
             (case py_subscript_str (r_instance r) URI of
                Inl e \<Rightarrow> (Inl e, r)
              | Inr u \<Rightarrow>
                  (case uri_id N u of
                     Inl e \<Rightarrow> (Inl e, r)
                   | Inr i \<Rightarrow> (Inr i, r\<lparr>r_id := i\<rparr>))))
      else (Inr (r_id r), r))"

text \<open>
  The property \<open>valid_instance\<close>: the loop over \<open>self._attributes\<close> with the
  dict \<open>instance\<close> built so far.
\<close>

fun valid_instance_loop ::
  "env \<Rightarrow> json \<Rightarrow> (string \<times> mapper) list \<Rightarrow> (string \<times> json) list \<Rightarrow> error + (string \<times> json) list"
where
  "valid_instance_loop E inst [] acc = Inr acc"
| "valid_instance_loop E inst ((key, attr) # rest) acc =
     (case inst of
        JDict kvs \<Rightarrow>
          (case empty_value E attr of
             Inl e \<Rightarrow> Inl e
           | Inr ev \<Rightarrow>
               (let v = (case map_of kvs key of None \<Rightarrow> ev | Some x \<Rightarrow> x)
                in valid_instance_loop E inst rest
                     (if \<not> read_only attr \<and> v \<noteq> JNull then AList.update key v acc else acc)))
      | _ \<Rightarrow> Inl AttributeError)"

definition valid_instance :: "env \<Rightarrow> resource \<Rightarrow> error + json" where
  "valid_instance E r =
     (case valid_instance_loop E (r_instance r) (r_attributes r) [] of
        Inl e \<Rightarrow> Inl e
      | Inr kvs \<Rightarrow> Inr (JDict kvs))"

text \<open>
  Reading a property of a resource object by its name (\<open>self.id\<close>,
  \<open>getattr(binding, "id")\<close>, \<open>args[0].valid_instance\<close>): when the getter raises
  \<open>AttributeError\<close>, Python calls \<open>Resource.__getattr__\<close> with the name, and for a
  name that does not start with \<open>$\<close> that method evaluates a \<open>getattr\<close> with a
  default, drops the result and returns \<open>None\<close>. So the read yields \<open>None\<close>;
  any other exception leaves it.
\<close>

definition property_read :: "error + json \<Rightarrow> error + json" where
  "property_read x =
     (case x of
        Inl e \<Rightarrow> if e = AttributeError then Inr JNull else Inl e
      | Inr v \<Rightarrow> Inr v)"

definition getattr_id :: "env \<Rightarrow> net \<Rightarrow> resource \<Rightarrow> (error + json) \<times> resource" where
  "getattr_id E N r = (case Resource_id E N r of (x, r') \<Rightarrow> (property_read x, r'))"

section \<open>Link: the call\<close>

text \<open>
  A positional argument of a call is a value or a resource object; of a resource,
  \<open>_process_args\<close> takes \<open>arg.valid_instance\<close>, read by name.
\<close>

datatype arg = AVal json | ARes nat

definition arg_body :: "env \<Rightarrow> state \<Rightarrow> arg \<Rightarrow> error + json" where
  "arg_body E s a =
     (case a of
        ARes i \<Rightarrow> property_read (valid_instance E (heap s i))
      | AVal v \<Rightarrow> Inr v)"

fun args_body :: "env \<Rightarrow> state \<Rightarrow> arg list \<Rightarrow> error + json list" where
  "args_body E s [] = Inr []"
| "args_body E s (a # as) =
     (case arg_body E s a of
        Inl e \<Rightarrow> Inl e
      | Inr v \<Rightarrow> (case args_body E s as of Inl e \<Rightarrow> Inl e | Inr vs \<Rightarrow> Inr (v # vs)))"

text \<open>
  \<open>Resource.__str__\<close> formats the class, \<open>getattr(self, "id")\<close> and
  \<open>str(self._instance)\<close>: it reads the property \<open>id\<close>, which may assign
  \<open>_id\<close> or raise.
\<close>

definition resource_str :: "env \<Rightarrow> net \<Rightarrow> resource \<Rightarrow> (error + string) \<times> resource" where
  "resource_str E N r =
     (case getattr_id E N r of
        (Inl e, r') \<Rightarrow> (Inl e, r')
      | (Inr ident, r') \<Rightarrow> (Inr (resource_repr N ident (r_instance r')), r'))"

text \<open>
  \<open>_process_args\<close>. Calling \<open>int\<close> or \<open>float\<close> on a resource raises,
  \<open>bool\<close> gives \<open>True\<close>, \<open>str\<close> is its \<open>__str__\<close>. The state is
  returned because of the latter.
\<close>

definition scalar_arg :: "env \<Rightarrow> net \<Rightarrow> state \<Rightarrow> pytype \<Rightarrow> arg \<Rightarrow> (error + json) \<times> state" where
  "scalar_arg E N s t a =
     (case a of
        AVal v \<Rightarrow> (py_call E t v, s)
      | ARes i \<Rightarrow>
          (if t = TBool then (Inr (JBool True), s)
           else if t = TStr then
             (case resource_str E N (heap s i) of
                (Inl e, r') \<Rightarrow> (Inl e, s\<lparr>heap := (heap s)(i := r')\<rparr>)
              | (Inr text, r') \<Rightarrow> (Inr (JStr text), s\<lparr>heap := (heap s)(i := r')\<rparr>))
           else (Inl TypeError, s)))"

definition process_args ::
  "env \<Rightarrow> net \<Rightarrow> state \<Rightarrow> link \<Rightarrow> arg list \<Rightarrow> (error + json) \<times> state"
where
  "process_args E N s l args =
     (case input_type E l of
        Inl e \<Rightarrow> (Inl e, s)
      | Inr ty \<Rightarrow>
          if ty = PyType TList then
            (case args_body E s args of Inl e \<Rightarrow> (Inl e, s) | Inr vs \<Rightarrow> (Inr (JList vs), s))
          else if ty \<in> set [PyType TDict, PyType TObject] then
            (case args of
               [a] \<Rightarrow> (arg_body E s a, s)
             | [] \<Rightarrow> (Inr JNull, s)
             | _ \<Rightarrow> (Inl AttributeError, s))
          else if ty \<in> set [PyType TFloat, PyType TInt, PyType TStr, PyType TBool] then
            (case args of
               [a] \<Rightarrow> (case ty of PyType t \<Rightarrow> scalar_arg E N s t a | PyNone \<Rightarrow> (Inr JNull, s))
             | [] \<Rightarrow> (Inr JNull, s)
             | _ \<Rightarrow> (Inl AttributeError, s))
          else (Inr JNull, s))"

text \<open>
  \<open>generate_url\<close>. On a resource instance the URL is formatted with
  \<open>getattr(binding, k)\<close> for the keys of the route. Reading \<open>id\<close> is the
  property above, read by name (no declared property is taken to shadow it); reading any other attribute
  of a resource (a generated property, a proxy, the fallback \<open>__getattr__\<close>) is a
  parameter of the model and is taken to make no request.
\<close>

definition other_attribute :: "net \<Rightarrow> resource \<Rightarrow> string \<Rightarrow> json" where
  "other_attribute N r k = attribute_value N k (r_id r) (r_instance r)"

fun route_values ::
  "env \<Rightarrow> net \<Rightarrow> resource \<Rightarrow> string list \<Rightarrow> (error + (string \<times> json) list) \<times> resource"
where
  "route_values E N r [] = (Inr [], r)"
| "route_values E N r (k # ks) =
     (case (if k = ''id'' then getattr_id E N r else (Inr (other_attribute N r k), r)) of
        (Inl e, r') \<Rightarrow> (Inl e, r')
      | (Inr v, r') \<Rightarrow>
          (case route_values E N r' ks of
             (Inl e, r'') \<Rightarrow> (Inl e, r'')
           | (Inr kvs, r'') \<Rightarrow> (Inr ((k, v) # kvs), r'')))"

definition strip_slash :: "string \<Rightarrow> string" where
  "strip_slash url = (if url \<noteq> [] \<and> last url = CHR ''/'' then butlast url else url)"

definition generate_url ::
  "env \<Rightarrow> net \<Rightarrow> state \<Rightarrow> binding \<Rightarrow> link \<Rightarrow> (error + string) \<times> state"
where
  "generate_url E N s b l =
     (case b of
        NoBinding \<Rightarrow> (Inl AttributeError, s)
      | ClassBinding \<Rightarrow> (Inr (strip_slash (base_url N @ path l)), s)
      | InstanceBinding i \<Rightarrow>
          (case route_values E N (heap s i) (keys l) of
             (Inl e, r') \<Rightarrow> (Inl e, s\<lparr>heap := (heap s)(i := r')\<rparr>)
           | (Inr kvs, r') \<Rightarrow>
               (case url_format N (base_url N @ path l) kvs of
                  Inl e \<Rightarrow> (Inl e, s\<lparr>heap := (heap s)(i := r')\<rparr>)
                | Inr url \<Rightarrow> (Inr (strip_slash url), s\<lparr>heap := (heap s)(i := r')\<rparr>))))"

text \<open>
  \<open>Link.__call__\<close> up to the handler, which the caller applies to the response:
  the URL, the parameters, the body, the request, the status check. The state is
  returned also when an exception is raised.
\<close>

definition Link_call ::
  "env \<Rightarrow> net \<Rightarrow> state \<Rightarrow> link \<Rightarrow> arg list \<Rightarrow> binding \<Rightarrow> (string \<times> json) list
     \<Rightarrow> (error + response) \<times> state"
where
  "Link_call E N s l args b kwargs =
     (case generate_url E N s b l of
        (Inl e, s') \<Rightarrow> (Inl e, s')
      | (Inr url, s') \<Rightarrow>
          (case process_args E N s' l args of
             (Inl e, s'') \<Rightarrow> (Inl e, s'')
           | (Inr body, s'') \<Rightarrow>
               (case do_request N (world s'')
                       \<lparr> req_method = http_method l, req_url = url, req_body = body,
                         req_params = dictionary_to_params N kwargs \<rparr> of
                  (res, w') \<Rightarrow>
                    (if status_ok res then Inr res else Inl TransportError, s''\<lparr>world := w'\<rparr>))))"

section \<open>Proxies: construction and accessors\<close>

text \<open>
  \<open>LinkProxy.return_type\<close>: the class of the bound proxy, chosen from the return
  type of the link.
\<close>

definition proxy_kind :: "env \<Rightarrow> link \<Rightarrow> error + proxy_class" where
  "proxy_kind E l =
     (case return_type E l of
        Inl e \<Rightarrow> Inl e
      | Inr ty \<Rightarrow>
          Inr (if ty = PyType TList then CListLinkProxy
               else if ty = PyType TNone then CVoidLinkProxy
               else CObjectLinkProxy))"

text \<open>
  \<open>_parse_schema\<close>: the loop over the properties of the input schema, which stores
  a mapper in \<open>_attributes\<close> and sets the accessor on the object.
\<close>

fun parse_schema_loop ::
  "env \<Rightarrow> (string \<times> json) list \<Rightarrow> (string \<times> mapper) list \<Rightarrow> (string \<times> proxy dynattr) list
     \<Rightarrow> error + ((string \<times> mapper) list \<times> (string \<times> proxy dynattr) list)"
where
  "parse_schema_loop E [] attrs d = Inr (attrs, d)"
| "parse_schema_loop E ((prop, fragment) # rest) attrs d =
     (case AttributeMapper_init E fragment of
        Inl e \<Rightarrow> Inl e
      | Inr a \<Rightarrow>
          parse_schema_loop E rest (AList.update prop a attrs) (AList.update prop (Accessor prop) d))"

definition parse_schema ::
  "env \<Rightarrow> link \<Rightarrow> (string \<times> mapper) list
     \<Rightarrow> error + ((string \<times> mapper) list \<times> (string \<times> proxy dynattr) list)"
where
  "parse_schema E l attrs =
     (case py_in PROPERTIES (schema l) of
        Inl e \<Rightarrow> Inl e
      | Inr False \<Rightarrow> Inr (attrs, [])
      | Inr True \<Rightarrow>
          (case py_subscript_str (schema l) PROPERTIES of
             Inl e \<Rightarrow> Inl e
           | Inr (JDict props) \<Rightarrow> parse_schema_loop E props attrs []
           | Inr _ \<Rightarrow> Inl AttributeError))"

text \<open>
  The call \<open>C(link=l, binding=b, attributes=attrs, **kw)\<close> of one of the three bound
  classes (\<open>attrs\<close> is \<open>None\<close> where the call does not pass \<open>attributes\<close>).
  A keyword of \<open>kw\<close> that repeats an explicit one is a type error of the call. A list
  proxy takes the keyword \<open>links\<close> for itself. A keyword \<open>attributes\<close> in
  \<open>kw\<close> would put a plain value in the place of the mappers: if it is false the
  proxy starts from \<open>{}\<close>, otherwise the model stops (\<open>NotModelled\<close>, which
  is no exception of the program but the mark of a path left out); so it does
  for an accessor called with two or more positional arguments, whose value is a tuple.
\<close>

definition new_bound_proxy ::
  "env \<Rightarrow> proxy_class \<Rightarrow> link \<Rightarrow> binding \<Rightarrow> (string \<times> mapper) list option
     \<Rightarrow> (string \<times> json) list \<Rightarrow> error + proxy"
where
  "new_bound_proxy E c l b attrs kw =
     (if ''link'' \<in> set (map fst kw) \<or> ''binding'' \<in> set (map fst kw)
         \<or> (attrs \<noteq> None \<and> ''attributes'' \<in> set (map fst kw))
      then Inl TypeError
      else if c = CObjectLinkProxy \<and> b = NoBinding then Inl AssertionError
      else
        (let larg = (if c = CListLinkProxy then
                       (case map_of kw ''links'' of
                          None \<Rightarrow> JNull
                        | Some v \<Rightarrow> if truthy E v then v else JNull)
                     else JNull);
             kw1 = (if c = CListLinkProxy then AList.delete ''links'' kw else kw);
             kw2 = AList.delete ''attributes'' kw1
         in case (case attrs of
                    Some given \<Rightarrow> Inr given
                  | None \<Rightarrow>
                      (case map_of kw1 ''attributes'' of
                         None \<Rightarrow> Inr []
                       | Some v \<Rightarrow> if truthy E v then Inl NotModelled else Inr [])) of
              Inl e \<Rightarrow> Inl e
            | Inr attrs0 \<Rightarrow>
                (case parse_schema E l attrs0 of
                   Inl e \<Rightarrow> Inl e
                 | Inr (attrs1, d) \<Rightarrow>
                     Inr (Proxy \<lparr> kind = c, p_link = l, p_binding = b, p_attributes = attrs1,
                                  p_kwargs = kw2, links_arg = larg, collection = JNull,
                                  total = 0 \<rparr> d))))"

text \<open>\<open>LinkProxy(link).bind(instance)\<close>.\<close>

definition bind :: "env \<Rightarrow> link \<Rightarrow> binding \<Rightarrow> error + proxy" where
  "bind E l b =
     (case proxy_kind E l of
        Inl e \<Rightarrow> Inl e
      | Inr c \<Rightarrow> new_bound_proxy E c l b None [])"

text \<open>
  The accessor \<open>new_proxy(*args, **kwargs)\<close> that \<open>_proxy(prop)\<close> returns, called
  on the proxy \<open>p\<close> it closes over. \<open>new_kwargs = self._kwargs\<close> names the dict of
  \<open>p\<close> itself, so the assignment \<open>new_kwargs[prop] = val\<close> changes \<open>p\<close>: the
  result is \<open>p\<close> after the call, and the new proxy or the exception.
\<close>

definition accessor_value ::
  "env \<Rightarrow> proxy \<Rightarrow> string \<Rightarrow> json list \<Rightarrow> (string \<times> json) list \<Rightarrow> error + json"
where
  "accessor_value E p prop args kwargs =
     (case (if length args > 0 then
              (if length kwargs \<noteq> 0 then Inl AssertionError
               else (case args of [v] \<Rightarrow> Inr v | _ \<Rightarrow> Inl NotModelled))
            else Inr (JDict kwargs)) of
        Inl e \<Rightarrow> Inl e
      | Inr val \<Rightarrow>
          (case map_of (p_attributes (core p)) prop of
             None \<Rightarrow> Inr val
           | Some attr \<Rightarrow> serialize E attr val True))"

definition accessor ::
  "env \<Rightarrow> proxy \<Rightarrow> string \<Rightarrow> json list \<Rightarrow> (string \<times> json) list \<Rightarrow> proxy \<times> (error + proxy)"
where
  "accessor E p prop args kwargs =
     (case accessor_value E p prop args kwargs of
        Inl e \<Rightarrow> (p, Inl e)
      | Inr val \<Rightarrow>
          (let new_kwargs = AList.update prop val (p_kwargs (core p));
               p' = Proxy ((core p)\<lparr>p_kwargs := new_kwargs\<rparr>) (dyn p)
           in (p',
               case proxy_kind E (p_link (core p)) of
                 Inl e \<Rightarrow> Inl e
               | Inr c \<Rightarrow>
                   new_bound_proxy E c (p_link (core p)) (p_binding (core p))
                     (Some (p_attributes (core p))) new_kwargs)))"

section \<open>ListLinkProxy\<close>

text \<open>\<open>len(x)\<close> and \<open>x[index]\<close> with a number as index.\<close>

fun py_len :: "json \<Rightarrow> error + nat" where
  "py_len (JList xs) = Inr (length xs)"
| "py_len (JStr s) = Inr (length s)"
| "py_len (JDict kvs) = Inr (length kvs)"
| "py_len _ = Inl TypeError"

definition seq_index :: "'a list \<Rightarrow> int \<Rightarrow> error + 'a" where
  "seq_index xs i =
     (let n = int (length xs); j = (if i < 0 then n + i else i)
      in if 0 \<le> j \<and> j < n then Inr (xs ! nat j) else Inl IndexError)"

fun py_subscript :: "json \<Rightarrow> json \<Rightarrow> error + json" where
  "py_subscript (JList xs) index =
     (case as_num index of
        Some (NInt i) \<Rightarrow> seq_index xs i
      | _ \<Rightarrow> Inl TypeError)"
| "py_subscript (JStr s) index =
     (case as_num index of
        Some (NInt i) \<Rightarrow> (case seq_index s i of Inl e \<Rightarrow> Inl e | Inr c \<Rightarrow> Inr (JStr [c]))
      | _ \<Rightarrow> Inl TypeError)"
| "py_subscript (JDict kvs) index =
     (case index of
        JStr k \<Rightarrow> py_subscript_str (JDict kvs) k
      | JList _ \<Rightarrow> Inl TypeError
      | JDict _ \<Rightarrow> Inl TypeError
      | _ \<Rightarrow> Inl KeyError)"
| "py_subscript _ index = Inl TypeError"

text \<open>
  \<open>_create_link\<close> for a relation of \<open>res.links\<close>, which is never a proxy
  already. \<open>new_kwargs = self._kwargs\<close> is the dict of the proxy itself: the loop
  over the query parameters of the URL writes into it (\<open>seed_kwargs\<close>), and the new
  list proxy is built from it. The proxy is returned as the exception leaves it.
\<close>

definition serialize_attribute_value :: "env \<Rightarrow> proxy \<Rightarrow> string \<Rightarrow> json \<Rightarrow> error + json" where
  "serialize_attribute_value E p key v =
     (case map_of (p_attributes (core p)) key of
        None \<Rightarrow> Inr v
      | Some attr \<Rightarrow> serialize E attr v True)"

fun seed_kwargs :: "env \<Rightarrow> proxy \<Rightarrow> (string \<times> json) list \<Rightarrow> proxy \<times> error option" where
  "seed_kwargs E p [] = (p, None)"
| "seed_kwargs E p ((key, v) # rest) =
     (case serialize_attribute_value E p key v of
        Inl e \<Rightarrow> (p, Some e)
      | Inr v' \<Rightarrow>
          seed_kwargs E
            (Proxy ((core p)\<lparr>p_kwargs := AList.update key v' (p_kwargs (core p))\<rparr>) (dyn p)) rest)"

definition create_link :: "env \<Rightarrow> net \<Rightarrow> proxy \<Rightarrow> string \<Rightarrow> string \<Rightarrow> proxy \<times> error option" where
  "create_link E N p name url =
     (case url_query N url of
        Inl e \<Rightarrow> (p, Some e)
      | Inr query \<Rightarrow>
          (case seed_kwargs E p query of
             (p1, Some e) \<Rightarrow> (p1, Some e)
           | (p1, None) \<Rightarrow>
               (case new_bound_proxy E CListLinkProxy (p_link (core p1)) (p_binding (core p1)) None
                       (p_kwargs (core p1)) of
                  Inl e \<Rightarrow> (p1, Some e)
                | Inr q \<Rightarrow>
                    (let p2 = Proxy (core p1) (AList.update name (Related q) (dyn p1))
                     in case links_arg (core p1) of
                          JNull \<Rightarrow> (p2, None)
                        | JDict _ \<Rightarrow> (p2, None)
                        | _ \<Rightarrow> (p2, Some TypeError)))))"

fun create_links :: "env \<Rightarrow> net \<Rightarrow> proxy \<Rightarrow> (string \<times> string) list \<Rightarrow> proxy \<times> error option" where
  "create_links E N p [] = (p, None)"
| "create_links E N p ((name, url) # rest) =
     (case create_link E N p name url of
        (p', Some e) \<Rightarrow> (p', Some e)
      | (p', None) \<Rightarrow> create_links E N p' rest)"

text \<open>
  \<open>ListLinkProxy.handler\<close>. A missing header is the \<open>KeyError\<close> that the
  \<open>except\<close> clause catches, and so is a \<open>KeyError\<close> out of the loop over the
  links; any other exception leaves the handler. \<open>res.links\<close> is a property of
  \<open>requests.Response\<close> that parses the header \<open>Link\<close> into a new dict on every
  access: \<open>res.links.pop("self", None)\<close> takes the relation out of a dict that nothing
  holds, and the loop, which reads the property again, runs over every relation of the
  response, \<open>self\<close> among them.
\<close>

definition handler_fallback :: "proxy \<Rightarrow> response \<Rightarrow> proxy \<times> (error + json)" where
  "handler_fallback p res =
     (case py_len (res_json res) of
        Inl e \<Rightarrow> (p, Inl e)
      | Inr n \<Rightarrow> (Proxy ((core p)\<lparr>total := int n\<rparr>) (dyn p), Inr (res_json res)))"

definition ListLinkProxy_handler ::
  "env \<Rightarrow> net \<Rightarrow> proxy \<Rightarrow> response \<Rightarrow> proxy \<times> (error + json)"
where
  "ListLinkProxy_handler E N p res =
     (case total_count res of
        None \<Rightarrow> handler_fallback p res
      | Some h \<Rightarrow>
          (case int_of_str E h of
             None \<Rightarrow> (p, Inl ValueError)
           | Some n \<Rightarrow>
               (case create_links E N (Proxy ((core p)\<lparr>total := n\<rparr>) (dyn p)) (res_links res) of
                  (p', None) \<Rightarrow> (p', Inr (res_json res))
                | (p', Some KeyError) \<Rightarrow> handler_fallback p' res
                | (p', Some e) \<Rightarrow> (p', Inl e))))"

text \<open>
  \<open>self._collection = self._resolve()\<close> when \<open>_collection\<close> is \<open>None\<close>:
  the link is called with the accumulated arguments as keywords (\<open>binding\<close> and
  \<open>handler\<close> are keywords of the call already) and the handler is applied.
\<close>

definition fetch :: "env \<Rightarrow> net \<Rightarrow> state \<Rightarrow> proxy \<Rightarrow> error option \<times> proxy \<times> state" where
  "fetch E N s p =
     (if ''binding'' \<in> set (map fst (p_kwargs (core p))) \<or> ''handler'' \<in> set (map fst (p_kwargs (core p)))
      then (Some TypeError, p, s)
      else case Link_call E N s (p_link (core p)) [] (p_binding (core p)) (p_kwargs (core p)) of
             (Inl e, s') \<Rightarrow> (Some e, p, s')
           | (Inr res, s') \<Rightarrow>
               (case ListLinkProxy_handler E N p res of
                  (p', Inl e) \<Rightarrow> (Some e, p', s')
                | (p', Inr v) \<Rightarrow> (None, Proxy ((core p')\<lparr>collection := v\<rparr>) (dyn p'), s')))"

definition ensure_collection :: "env \<Rightarrow> net \<Rightarrow> state \<Rightarrow> proxy \<Rightarrow> error option \<times> proxy \<times> state" where
  "ensure_collection E N s p =
     (if collection (core p) = JNull then fetch E N s p else (None, p, s))"

definition slice_size :: "env \<Rightarrow> net \<Rightarrow> state \<Rightarrow> proxy \<Rightarrow> (error + nat) \<times> proxy \<times> state" where
  "slice_size E N s p =
     (case ensure_collection E N s p of
        (Some e, p', s') \<Rightarrow> (Inl e, p', s')
      | (None, p', s') \<Rightarrow> (py_len (collection (core p')), p', s'))"

text \<open>
  \<open>__len__\<close>, the method; \<open>len()\<close> refuses a negative result and one
  above \<open>sys.maxsize\<close>.
\<close>

definition ListLinkProxy_len :: "env \<Rightarrow> net \<Rightarrow> state \<Rightarrow> proxy \<Rightarrow> (error + int) \<times> proxy \<times> state" where
  "ListLinkProxy_len E N s p =
     (case ensure_collection E N s p of
        (Some e, p', s') \<Rightarrow> (Inl e, p', s')
      | (None, p', s') \<Rightarrow> (Inr (total (core p')), p', s'))"

definition builtin_len :: "env \<Rightarrow> net \<Rightarrow> state \<Rightarrow> proxy \<Rightarrow> (error + int) \<times> proxy \<times> state" where
  "builtin_len E N s p =
     (case ListLinkProxy_len E N s p of
        (Inl e, p', s') \<Rightarrow> (Inl e, p', s')
      | (Inr n, p', s') \<Rightarrow>
          (if n < 0 then Inl ValueError
           else if n > sys_maxsize E then Inl OverflowError
           else Inr n, p', s'))"

subsection \<open>Indexed access\<close>

text \<open>The comparison \<open>index > self._total\<close>.\<close>

definition index_gt :: "env \<Rightarrow> json \<Rightarrow> int \<Rightarrow> error + bool" where
  "index_gt E index n =
     (case as_num index of
        Some (NInt i) \<Rightarrow> Inr (i > n)
      | Some (NFloat f) \<Rightarrow> Inr (float_gt_int E f n)
      | None \<Rightarrow> Inl TypeError)"

text \<open>
  The branch of \<open>__getitem__\<close> taken when the index is greater than the total:
  \<open>page = index/per_page\<close> is the true division of Python 3, its result a float;
  \<open>kwargs = self._kwargs\<close> is the dict of the proxy itself, which receives
  \<open>page\<close>. The result is the proxy after the assignment and, unless an exception is
  raised, the new list proxy and the index \<open>index - page*per_page\<close> of the recursive
  call.
\<close>

definition getitem_page ::
  "env \<Rightarrow> proxy \<Rightarrow> json \<Rightarrow> proxy \<times> (error + proxy \<times> json)"
where
  "getitem_page E p index =
     (case map_of (p_kwargs (core p)) ''per_page'' of
        None \<Rightarrow> (p, Inl KeyError)
      | Some per_page \<Rightarrow>
          (case (as_num index, as_num per_page) of
             (Some a, Some b) \<Rightarrow>
               (case num_truediv E a b of
                  Inl e \<Rightarrow> (p, Inl e)
                | Inr page \<Rightarrow>
                    (let kwargs = AList.update ''page'' (JFloat page) (p_kwargs (core p));
                         p' = Proxy ((core p)\<lparr>p_kwargs := kwargs\<rparr>) (dyn p)
                     in case new_bound_proxy E CListLinkProxy (p_link (core p)) (p_binding (core p))
                               None kwargs of
                          Inl e \<Rightarrow> (p', Inl e)
                        | Inr link \<Rightarrow>
                            (p', Inr (link, JFloat (num_sub_float E a (float_mul E page b))))))
           | _ \<Rightarrow> (p, Inl TypeError)))"

text \<open>
  The other branch: the element at the index, handed to \<open>utils.evaluate_ref\<close> with
  the client of the binding.
\<close>

definition getitem_element :: "net \<Rightarrow> proxy \<Rightarrow> json \<Rightarrow> error + json" where
  "getitem_element N p index =
     (case py_subscript (collection (core p)) index of
        Inl e \<Rightarrow> Inl e
      | Inr item \<Rightarrow>
          (case py_subscript item (JStr URI) of
             Inl e \<Rightarrow> Inl e
           | Inr uri \<Rightarrow>
               if p_binding (core p) = NoBinding then Inl AttributeError
               else evaluate_ref N uri item))"

text \<open>
  One activation of \<open>__getitem__\<close> up to its \<open>return\<close>: the value or exception,
  or the proxy and index of the recursive call.
\<close>

datatype outcome = Done "error + json" | Recurse proxy json

definition getitem_step ::
  "env \<Rightarrow> net \<Rightarrow> state \<Rightarrow> proxy \<Rightarrow> json \<Rightarrow> outcome \<times> proxy \<times> state"
where
  "getitem_step E N s p index =
     (case ensure_collection E N s p of
        (Some e, p', s') \<Rightarrow> (Done (Inl e), p', s')
      | (None, p', s') \<Rightarrow>
          (case index_gt E index (total (core p')) of
             Inl e \<Rightarrow> (Done (Inl e), p', s')
           | Inr True \<Rightarrow>
               (case getitem_page E p' index of
                  (p'', Inl e) \<Rightarrow> (Done (Inl e), p'', s')
                | (p'', Inr (link, index')) \<Rightarrow> (Recurse link index', p'', s'))
           | Inr False \<Rightarrow> (Done (getitem_element N p' index), p', s')))"

text \<open>
  \<open>__getitem__\<close>: the recursion may go on forever, so the result is an option,
  \<open>None\<close> when it does. The proxy returned is \<open>self\<close>; the proxy of the
  recursive call is dropped with its frame.
\<close>

partial_function (option) getitem ::
  "env \<Rightarrow> net \<Rightarrow> state \<Rightarrow> proxy \<Rightarrow> json \<Rightarrow> ((error + json) \<times> proxy \<times> state) option"
where
  "getitem E N s p index =
     (case getitem_step E N s p index of
        (Done r, p', s') \<Rightarrow> Some (r, p', s')
      | (Recurse link index', p', s') \<Rightarrow>
          Option.bind (getitem E N s' link index') (\<lambda>(r, link', s''). Some (r, p', s'')))"

section \<open>ListLinkIterator\<close>

text \<open>
  The iterator: \<open>_slice_link\<close>, which is a proxy or, if the name \<open>first\<close> or
  \<open>next\<close> is that of a property of the input schema, the accessor set under it;
  \<open>pointer\<close>; \<open>total\<close>. The iterator holds the page it is on: the model keeps
  that proxy in the iterator and returns it with every step.
\<close>

record iterator =
  slice_link :: "proxy dynattr"
  pointer :: nat
  it_total :: int

definition ListLinkIterator_init ::
  "env \<Rightarrow> net \<Rightarrow> state \<Rightarrow> proxy \<Rightarrow> (error + iterator) \<times> state"
where
  "ListLinkIterator_init E N s list_link =
     (case (case map_of (dyn list_link) ''first'' of
              Some a \<Rightarrow> a
            | None \<Rightarrow> Related list_link) of
        Accessor prop \<Rightarrow> (Inl TypeError, s)
      | Related q \<Rightarrow>
          (case builtin_len E N s q of
             (Inl e, q', s') \<Rightarrow> (Inl e, s')
           | (Inr n, q', s') \<Rightarrow>
               (Inr \<lparr> slice_link = Related q', pointer = 0, it_total = n \<rparr>, s')))"

text \<open>
  \<open>__next__\<close>. \<open>advance\<close> is its first statement: on an exhausted page, the
  move to the relation \<open>next\<close> with the pointer reset, or \<open>StopIteration\<close>.
\<close>

definition advance ::
  "env \<Rightarrow> net \<Rightarrow> state \<Rightarrow> iterator \<Rightarrow> error option \<times> iterator \<times> state"
where
  "advance E N s it =
     (case slice_link it of
        Accessor prop \<Rightarrow> (Some AttributeError, it, s)
      | Related p \<Rightarrow>
          (case slice_size E N s p of
             (Inl e, p', s') \<Rightarrow> (Some e, it\<lparr>slice_link := Related p'\<rparr>, s')
           | (Inr n, p', s') \<Rightarrow>
               if pointer it \<ge> n then
                 (case map_of (dyn p') ''next'' of
                    Some a \<Rightarrow> (None, it\<lparr>slice_link := a, pointer := 0\<rparr>, s')
                  | None \<Rightarrow> (Some StopIteration, it\<lparr>slice_link := Related p'\<rparr>, s'))
               else (None, it\<lparr>slice_link := Related p'\<rparr>, s')))"

definition ListLinkIterator_next ::
  "env \<Rightarrow> net \<Rightarrow> state \<Rightarrow> iterator \<Rightarrow> ((error + json) \<times> iterator \<times> state) option"
where
  "ListLinkIterator_next E N s it =
     (case advance E N s it of
        (Some e, it', s') \<Rightarrow> Some (Inl e, it', s')
      | (None, it', s') \<Rightarrow>
          (case slice_link it' of
             Accessor prop \<Rightarrow> Some (Inl TypeError, it', s')
           | Related p \<Rightarrow>
               (case getitem E N s' p (JInt (int (pointer it'))) of
                  None \<Rightarrow> None
                | Some (Inl e, p', s'') \<Rightarrow> Some (Inl e, it'\<lparr>slice_link := Related p'\<rparr>, s'')
                | Some (Inr v, p', s'') \<Rightarrow>
                    Some (Inr v, it'\<lparr>slice_link := Related p', pointer := pointer it' + 1\<rparr>, s''))))"

text \<open>
  Running the iterator to its end, as \<open>list(proxy)\<close> or a \<open>for\<close> loop does:
  the elements yielded so far are \<open>acc\<close>; \<open>StopIteration\<close> ends the loop, any
  other exception leaves it. \<open>None\<close>: the loop does not end.
\<close>

partial_function (option) drain ::
  "env \<Rightarrow> net \<Rightarrow> state \<Rightarrow> iterator \<Rightarrow> json list \<Rightarrow> ((error + json list) \<times> iterator \<times> state) option"
where
  "drain E N s it acc =
     (case ListLinkIterator_next E N s it of
        None \<Rightarrow> None
      | Some (Inl e, it', s') \<Rightarrow> Some (if e = StopIteration then Inr acc else Inl e, it', s')
      | Some (Inr v, it', s') \<Rightarrow> drain E N s' it' (acc @ [v]))"

definition iterate ::
  "env \<Rightarrow> net \<Rightarrow> state \<Rightarrow> proxy \<Rightarrow> ((error + json list) \<times> state) option"
where
  "iterate E N s list_link =
     (case ListLinkIterator_init E N s list_link of
        (Inl e, s') \<Rightarrow> Some (Inl e, s')
      | (Inr it, s') \<Rightarrow>
          (case drain E N s' it [] of
             None \<Rightarrow> None
           | Some (r, it', s'') \<Rightarrow> Some (r, s'')))"

section \<open>Calling a proxy\<close>

text \<open>
  \<open>__call__\<close> of a bound proxy: \<open>_resolve\<close> with positional arguments only,
  and the handler of its class. The list handler changes the proxy. A plain
  \<open>LinkProxy\<close> has no \<open>__call__\<close>.
\<close>

definition proxy_call ::
  "env \<Rightarrow> net \<Rightarrow> state \<Rightarrow> proxy \<Rightarrow> arg list \<Rightarrow> (error + json) \<times> proxy \<times> state"
where
  "proxy_call E N s p args =
     (if kind (core p) = CLinkProxy then (Inl TypeError, p, s)
      else if ''binding'' \<in> set (map fst (p_kwargs (core p))) \<or> ''handler'' \<in> set (map fst (p_kwargs (core p)))
      then (Inl TypeError, p, s)
      else case Link_call E N s (p_link (core p)) args (p_binding (core p)) (p_kwargs (core p)) of
             (Inl e, s') \<Rightarrow> (Inl e, p, s')
           | (Inr res, s') \<Rightarrow>
               (case kind (core p) of
                  CVoidLinkProxy \<Rightarrow> (Inr JNull, p, s')
                | CListLinkProxy \<Rightarrow>
                    (case ListLinkProxy_handler E N p res of (p', r) \<Rightarrow> (r, p', s'))
                | _ \<Rightarrow> (Inr (res_json res), p, s')))"

section \<open>Resource\<close>

text \<open>
  \<open>_create_proxies\<close> and \<open>__init__\<close> without keyword arguments: a proxy per
  instance link, bound to the new object, whose identity is \<open>i\<close>.
\<close>

fun create_proxies ::
  "env \<Rightarrow> nat \<Rightarrow> (string \<times> link) list \<Rightarrow> (string \<times> proxy) list \<Rightarrow> error + (string \<times> proxy) list"
where
  "create_proxies E i [] acc = Inr acc"
| "create_proxies E i ((name, l) # rest) acc =
     (case bind E l (InstanceBinding i) of
        Inl e \<Rightarrow> Inl e
      | Inr p \<Rightarrow> create_proxies E i rest (AList.update name p acc))"

definition Resource_init ::
  "env \<Rightarrow> (string \<times> mapper) list \<Rightarrow> (string \<times> link) list \<Rightarrow> (string \<times> link) list
     \<Rightarrow> nat \<Rightarrow> json \<Rightarrow> json \<Rightarrow> error + resource"
where
  "Resource_init E attrs tlinks ilinks i oid inst =
     (case create_proxies E i ilinks [] of
        Inl e \<Rightarrow> Inl e
      | Inr ps \<Rightarrow>
          Inr \<lparr> r_attributes = attrs, type_links = tlinks, instance_links = ilinks,
                r_id = oid, r_instance = (if oid = JNull then JDict [] else inst),
                r_proxies = ps \<rparr>)"

text \<open>
  Reading a relation name on a resource object (\<open>self.create\<close>, \<open>self.update\<close>,
  \<open>self.self\<close>): the proxy set on the instance, else the descriptor of the class,
  which binds a new proxy to the instance, else \<open>None\<close> from \<open>__getattr__\<close>,
  which is called too when the descriptor raises \<open>AttributeError\<close>.
  A proxy set on the instance is an object of its own: after a call it is stored back.
\<close>

definition link_attr :: "env \<Rightarrow> resource \<Rightarrow> nat \<Rightarrow> string \<Rightarrow> error + proxy option" where
  "link_attr E r i name =
     (case map_of (r_proxies r) name of
        Some p \<Rightarrow> Inr (Some p)
      | None \<Rightarrow>
          (case map_of (type_links r) name of
             Some l \<Rightarrow>
               (case bind E l (InstanceBinding i) of
                  Inl e \<Rightarrow> if e = AttributeError then Inr None else Inl e
                | Inr p \<Rightarrow> Inr (Some p))
           | None \<Rightarrow> Inr None))"

definition store_proxy :: "state \<Rightarrow> nat \<Rightarrow> string \<Rightarrow> proxy \<Rightarrow> state" where
  "store_proxy s i name p =
     (if name \<in> set (map fst (r_proxies (heap s i)))
      then s\<lparr>heap := (heap s)(i := (heap s i)\<lparr>r_proxies := AList.update name p (r_proxies (heap s i))\<rparr>)\<rparr>
      else s)"

definition set_instance :: "state \<Rightarrow> nat \<Rightarrow> json \<Rightarrow> state" where
  "set_instance s i v = s\<lparr>heap := (heap s)(i := (heap s i)\<lparr>r_instance := v\<rparr>)\<rparr>"

text \<open>\<open>self._instance = self.self()\<close>, of \<open>_ensure_instance\<close> and \<open>refresh\<close>.\<close>

definition refresh :: "env \<Rightarrow> net \<Rightarrow> state \<Rightarrow> nat \<Rightarrow> error option \<times> state" where
  "refresh E N s i =
     (case link_attr E (heap s i) i ''self'' of
        Inl e \<Rightarrow> (Some e, s)
      | Inr None \<Rightarrow> (Some TypeError, s)
      | Inr (Some p) \<Rightarrow>
          (case proxy_call E N s p [] of
             (Inl e, p', s') \<Rightarrow> (Some e, store_proxy s' i ''self'' p')
           | (Inr v, p', s') \<Rightarrow> (None, set_instance (store_proxy s' i ''self'' p') i v)))"

text \<open>The property \<open>instance\<close>.\<close>

definition Resource_instance :: "env \<Rightarrow> net \<Rightarrow> state \<Rightarrow> nat \<Rightarrow> (error + json) \<times> state" where
  "Resource_instance E N s i =
     (if r_instance (heap s i) = JNull then
        (case refresh E N s i of
           (Some e, s') \<Rightarrow> (Inl e, s')
         | (None, s') \<Rightarrow> (Inr (r_instance (heap s' i)), s'))
      else (Inr (r_instance (heap s i)), s))"

text \<open>
  \<open>_get_property\<close>, the getter of the property generated for \<open>name\<close>. The
  assignment \<open>self._instance[name] = raw\<close> stores the raw value. When the property
  \<open>instance\<close> raises \<open>AttributeError\<close>, the read \<open>self.instance\<close> yields
  \<open>None\<close>, whose \<open>.get\<close> raises \<open>AttributeError\<close> again: the getter
  raises it either way.
\<close>

definition get_property :: "env \<Rightarrow> net \<Rightarrow> state \<Rightarrow> nat \<Rightarrow> string \<Rightarrow> (error + json) \<times> state" where
  "get_property E N s i name =
     (case map_of (r_attributes (heap s i)) name of
        None \<Rightarrow> (Inl KeyError, s)
      | Some attr \<Rightarrow>
          (case Resource_instance E N s i of
             (Inl e, s') \<Rightarrow> (Inl e, s')
           | (Inr inst, s') \<Rightarrow>
               (case py_get inst name of
                  Inl e \<Rightarrow> (Inl e, s')
                | Inr got \<Rightarrow>
                    (case (if got = JNull then empty_value E attr else Inr got) of
                       Inl e \<Rightarrow> (Inl e, s')
                     | Inr raw \<Rightarrow>
                         (case inst of
                            JDict kvs \<Rightarrow>
                              (resolve E attr raw, set_instance s' i (JDict (AList.update name raw kvs)))
                          | _ \<Rightarrow> (Inl TypeError, s'))))))"



section \<open>A concrete environment\<close>

text \<open>
  An instance of the collaborators, for evaluating the model on concrete inputs:
  \<open>type_for\<close> maps the JSON Schema type names (one name or a list of names) to the
  Python types; \<open>validate\<close> checks the keyword \<open>type\<close> of a fragment as JSON
  Schema does (a boolean is not an integer) and accepts everything else; the special-key
  registry is empty; \<open>str()\<close> formats ints, strings, \<open>None\<close>, booleans and
  lists of them; \<open>int()\<close> parses an optional sign and decimal digits. No float
  exists in this environment: the conversions to float and the division \<open>/\<close> are
  not given a meaning in it (they raise) and no example divides.
\<close>

fun type_name :: "string \<Rightarrow> pytype option" where
  "type_name n =
     (if n = ''string'' then Some TStr
      else if n = ''integer'' then Some TInt
      else if n = ''number'' then Some TFloat
      else if n = ''boolean'' then Some TBool
      else if n = ''array'' then Some TList
      else if n = ''object'' then Some TDict
      else if n = ''null'' then Some TNone
      else None)"

fun example_type_names :: "json list \<Rightarrow> error + pytype list" where
  "example_type_names [] = Inr []"
| "example_type_names (JStr n # rest) =
     (case type_name n of
        None \<Rightarrow> Inl KeyError
      | Some t \<Rightarrow> (case example_type_names rest of Inl e \<Rightarrow> Inl e | Inr ts \<Rightarrow> Inr (t # ts)))"
| "example_type_names (_ # rest) = Inl KeyError"

fun example_type_for :: "json \<Rightarrow> error + pytype list" where
  "example_type_for (JStr n) = example_type_names [JStr n]"
| "example_type_for (JList ns) = example_type_names ns"
| "example_type_for _ = Inl TypeError"

fun has_type :: "json \<Rightarrow> json \<Rightarrow> bool" where
  "has_type JNull n = (n = JStr ''null'')"
| "has_type (JBool b) n = (n = JStr ''boolean'')"
| "has_type (JInt i) n = (n = JStr ''integer'' \<or> n = JStr ''number'')"
| "has_type (JFloat f) n = (n = JStr ''number'')"
| "has_type (JStr s) n = (n = JStr ''string'')"
| "has_type (JList xs) n = (n = JStr ''array'')"
| "has_type (JDict kvs) n = (n = JStr ''object'')"

fun example_validate :: "json \<Rightarrow> json \<Rightarrow> bool" where
  "example_validate v (JDict kvs) =
     (case map_of kvs TYPE_KEY of
        None \<Rightarrow> True
      | Some (JList ns) \<Rightarrow> list_ex (has_type v) ns
      | Some n \<Rightarrow> has_type v n)"
| "example_validate v _ = True"

function str_nat :: "nat \<Rightarrow> string" where
  "str_nat n = (if n < 10 then [''0123456789'' ! n] else str_nat (n div 10) @ [''0123456789'' ! (n mod 10)])"
  by pat_completeness auto
termination
  by (relation "measure (\<lambda>n. n)") auto

declare str_nat.simps [simp del]

definition str_int :: "int \<Rightarrow> string" where
  "str_int i = (if i < 0 then CHR ''-'' # str_nat (nat (- i)) else str_nat (nat i))"

fun join_comma :: "string list \<Rightarrow> string" where
  "join_comma [] = []"
| "join_comma [s] = s"
| "join_comma (s # t # rest) = s @ '', '' @ join_comma (t # rest)"

fun example_repr :: "json \<Rightarrow> string" where
  "example_repr JNull = ''None''"
| "example_repr (JBool b) = (if b then ''True'' else ''False'')"
| "example_repr (JInt i) = str_int i"
| "example_repr (JFloat f) = ''float''"
| "example_repr (JStr s) = [CHR 39] @ s @ [CHR 39]"
| "example_repr (JList xs) = ''['' @ join_comma (map example_repr xs) @ '']''"
| "example_repr (JDict kvs) =
     ''{'' @ join_comma (map (\<lambda>kv. [CHR 39] @ fst kv @ [CHR 39] @ '': '' @ example_repr (snd kv)) kvs) @ ''}''"

fun example_str :: "json \<Rightarrow> string" where
  "example_str (JStr s) = s"
| "example_str v = example_repr v"

fun position :: "char \<Rightarrow> string \<Rightarrow> nat \<Rightarrow> nat option" where
  "position c [] n = None"
| "position c (d # ds) n = (if c = d then Some n else position c ds (Suc n))"

definition digit_val :: "char \<Rightarrow> nat option" where
  "digit_val c = position c ''0123456789'' 0"

fun parse_nat :: "nat \<Rightarrow> string \<Rightarrow> nat option" where
  "parse_nat acc [] = Some acc"
| "parse_nat acc (c # s) =
     (case digit_val c of None \<Rightarrow> None | Some d \<Rightarrow> parse_nat (10 * acc + d) s)"

fun example_int_of_str :: "string \<Rightarrow> int option" where
  "example_int_of_str [] = None"
| "example_int_of_str (c # s) =
     (if c = CHR ''-'' then (if s = [] then None else map_option (\<lambda>n. - int n) (parse_nat 0 s))
      else map_option int (parse_nat 0 (c # s)))"

fun example_dict :: "json \<Rightarrow> error + json" where
  "example_dict (JDict kvs) = Inr (JDict kvs)"
| "example_dict (JList []) = Inr (JDict [])"
| "example_dict _ = Inl TypeError"

definition example_env :: env where
  "example_env =
     \<lparr> type_for = example_type_for,
       validate = example_validate,
       key_serialize = (\<lambda>key obj. Inl NotImplementedError),
       key_resolve = (\<lambda>key obj. Inl NotImplementedError),
       py_str = example_str,
       int_of_str = example_int_of_str,
       int_of_float = (\<lambda>f. Inl ValueError),
       float_of_int = (\<lambda>i. Inl ValueError),
       float_of_str = (\<lambda>s. None),
       float_nonzero = (\<lambda>f. True),
       py_dict = example_dict,
       num_truediv = (\<lambda>a b. Inl ZeroDivisionError),
       float_mul = (\<lambda>f n. f),
       num_sub_float = (\<lambda>n f. f),
       float_gt_int = (\<lambda>f i. False),
       sys_maxsize = 9223372036854775807 \<rparr>"

section \<open>Schema fragments used as examples\<close>

definition integer_fragment :: json where
  "integer_fragment = JDict [(''type'', JStr ''integer'')]"

definition number_fragment :: json where
  "number_fragment = JDict [(''type'', JStr ''number'')]"

definition null_fragment :: json where
  "null_fragment = JDict [(''type'', JStr ''null'')]"

definition read_only_integer_fragment :: json where
  "read_only_integer_fragment = JDict [(''type'', JStr ''integer''), (''readOnly'', JBool True)]"

definition read_only_untyped_fragment :: json where
  "read_only_untyped_fragment = JDict [(''readOnly'', JBool True)]"

definition integer_list_fragment :: json where
  "integer_list_fragment = JDict [(''type'', JStr ''array''), (''items'', integer_fragment)]"

definition integer_number_union :: json where
  "integer_number_union = JDict [(''oneOf'', JList [integer_fragment, number_fragment])]"

definition integer_null_union :: json where
  "integer_null_union = JDict [(''oneOf'', JList [integer_fragment, null_fragment])]"

text \<open>The objects that \<open>AttributeMapper(...)\<close> builds from these fragments.\<close>

definition integer_mapper :: mapper where
  "integer_mapper = Mapper CAttributeMapper False False integer_fragment []"

definition number_mapper :: mapper where
  "number_mapper = Mapper CAttributeMapper False False number_fragment []"

definition null_mapper :: mapper where
  "null_mapper = Mapper CAttributeMapper False False null_fragment []"

definition read_only_integer_mapper :: mapper where
  "read_only_integer_mapper = Mapper CAttributeMapper True False read_only_integer_fragment []"

definition read_only_untyped_mapper :: mapper where
  "read_only_untyped_mapper = Mapper CAttributeMapper True False read_only_untyped_fragment []"

definition integer_list_mapper :: mapper where
  "integer_list_mapper = Mapper CItems False False integer_fragment []"

definition integer_number_mapper :: mapper where
  "integer_number_mapper =
     Mapper COneOf False False (JList [integer_fragment, number_fragment])
       [(KInt 0, integer_mapper), (KInt 1, number_mapper)]"

definition integer_null_mapper :: mapper where
  "integer_null_mapper =
     Mapper COneOf False False (JList [integer_fragment, null_fragment])
       [(KInt 0, integer_mapper), (KInt 1, null_mapper)]"

section \<open>An example server: a collection of 25 items in pages of 10\<close>

text \<open>
  The list link of the example and a server for it: the requested page is the parameter
  \<open>page\<close> (page 1 without it); every response carries the count header with 25 and
  the relation \<open>self\<close>, and the relation \<open>next\<close> on pages 1 and 2. In the
  example client \<open>dictionary_to_params\<close> passes the arguments on as they are, the
  query of a URL is looked up in a table, \<open>evaluate_ref\<close> returns the item, and
  \<open>parse_uri\<close> is not used; an attribute that is not there reads as \<open>None\<close>.
\<close>

definition item :: "nat \<Rightarrow> json" where
  "item n = JDict [(''$uri'', JStr (''/item/'' @ str_nat n))]"

definition page_items :: "int \<Rightarrow> json list" where
  "page_items n =
     (if n = 1 then map item [1 ..< 11]
      else if n = 2 then map item [11 ..< 21]
      else if n = 3 then map item [21 ..< 26]
      else [])"

definition page_url :: "int \<Rightarrow> string" where
  "page_url n = ''/item?page='' @ str_int n @ ''&per_page=10''"

definition requested_page :: "request \<Rightarrow> int" where
  "requested_page r =
     (case req_params r of
        JDict kvs \<Rightarrow> (case map_of kvs ''page'' of Some (JInt n) \<Rightarrow> n | _ \<Rightarrow> 1)
      | _ \<Rightarrow> 1)"

definition example_transport :: "request list \<Rightarrow> request \<Rightarrow> response" where
  "example_transport w r =
     (let n = requested_page r in
      \<lparr> status_ok = True,
        total_count = Some ''25'',
        res_links = (''self'', page_url n) # (if n = 1 \<or> n = 2 then [(''next'', page_url (n + 1))] else []),
        res_json = JList (page_items n) \<rparr>)"

definition example_url_query :: "string \<Rightarrow> error + (string \<times> json) list" where
  "example_url_query url =
     Inr (if url = page_url 2 then [(''page'', JInt 2), (''per_page'', JInt 10)]
          else if url = page_url 3 then [(''page'', JInt 3), (''per_page'', JInt 10)]
          else [])"

definition example_net :: net where
  "example_net =
     \<lparr> base_url = ''http://localhost'',
       transport = example_transport,
       dictionary_to_params = JDict,
       url_format = (\<lambda>url kvs. Inr url),
       url_query = example_url_query,
       evaluate_ref = (\<lambda>uri it. Inr it),
       uri_id = (\<lambda>u. Inr u),
       attribute_value = (\<lambda>k oid inst. JNull),
       resource_repr = (\<lambda>ident inst. ''resource'') \<rparr>"

definition list_link :: link where
  "list_link =
     \<lparr> path = ''/item'', keys = [], http_method = ''GET'',
       schema = JDict [(''properties'', JDict [(''page'', integer_fragment), (''per_page'', integer_fragment)])],
       target_schema = JDict [(''type'', JStr ''array'')] \<rparr>"

definition list_proxy :: proxy where
  "list_proxy =
     Proxy \<lparr> kind = CListLinkProxy, p_link = list_link, p_binding = ClassBinding,
             p_attributes = [(''page'', integer_mapper), (''per_page'', integer_mapper)],
             p_kwargs = [], links_arg = JNull, collection = JNull, total = 0 \<rparr>
           [(''page'', Accessor ''page''), (''per_page'', Accessor ''per_page'')]"

definition empty_resource :: resource where
  "empty_resource =
     \<lparr> r_attributes = [], type_links = [], instance_links = [], r_id = JNull,
       r_instance = JDict [], r_proxies = [] \<rparr>"

definition initial_state :: state where
  "initial_state = \<lparr> world = [], heap = (\<lambda>i. empty_resource) \<rparr>"

text \<open>
  The list proxy with \<open>per_page = 10\<close> after it has fetched one page of 10 items from a
  server that sends no count header, so that \<open>_total\<close> is the length of the page.
\<close>

definition fetched_page :: proxy where
  "fetched_page =
     Proxy \<lparr> kind = CListLinkProxy, p_link = list_link, p_binding = ClassBinding,
             p_attributes = [(''page'', integer_mapper), (''per_page'', integer_mapper)],
             p_kwargs = [(''per_page'', JInt 10)], links_arg = JNull,
             collection = JList (page_items 1), total = 10 \<rparr>
           [(''page'', Accessor ''page''), (''per_page'', Accessor ''per_page'')]"

text \<open>
  The list proxy that \<open>__getitem__\<close> builds for a page value \<open>v\<close> from
  \<open>fetched_page\<close>, and \<open>fetched_page\<close> itself after \<open>kwargs['page'] = v\<close>.
\<close>

definition page_proxy :: "json \<Rightarrow> proxy" where
  "page_proxy v =
     Proxy \<lparr> kind = CListLinkProxy, p_link = list_link, p_binding = ClassBinding,
             p_attributes = [(''page'', integer_mapper), (''per_page'', integer_mapper)],
             p_kwargs = [(''per_page'', JInt 10), (''page'', v)], links_arg = JNull,
             collection = JNull, total = 0 \<rparr>
           [(''page'', Accessor ''page''), (''per_page'', Accessor ''per_page'')]"

definition fetched_page_with :: "json \<Rightarrow> proxy" where
  "fetched_page_with v =
     Proxy ((core fetched_page)\<lparr>p_kwargs := [(''per_page'', JInt 10), (''page'', v)]\<rparr>)
           (dyn fetched_page)"

text \<open>The example list proxy with the accumulated arguments \<open>kw\<close>.\<close>

definition list_proxy_with :: "(string \<times> json) list \<Rightarrow> proxy" where
  "list_proxy_with kw = Proxy ((core list_proxy)\<lparr>p_kwargs := kw\<rparr>) (dyn list_proxy)"

text \<open>\<open>fetched_page\<close> when the server has sent the count header with 25.\<close>

definition counted_page :: proxy where
  "counted_page = Proxy ((core fetched_page)\<lparr>total := 25\<rparr>) (dyn fetched_page)"

section \<open>An example resource type\<close>

text \<open>
  A resource type \<open>user\<close>: the properties \<open>name\<close> (a string), \<open>$uri\<close>
  (a read-only string), \<open>tags\<close> (a list of integers) and \<open>meta\<close> (an object);
  the type-level link \<open>create\<close> and the instance links \<open>self\<close> and
  \<open>update\<close>. Its server answers \<open>GET\<close> with a stored user and any other request
  with the body it received, to which it adds the URI. In this client \<open>str.format\<close>
  puts the identity in the place of \<open>{id}\<close> at the end of the URL, and the last
  component of a URI is what follows its last slash.
\<close>

definition string_fragment :: json where
  "string_fragment = JDict [(''type'', JStr ''string'')]"

definition read_only_string_fragment :: json where
  "read_only_string_fragment = JDict [(''type'', JStr ''string''), (''readOnly'', JBool True)]"

definition object_fragment :: json where
  "object_fragment = JDict [(''type'', JStr ''object'')]"

definition self_reference :: json where
  "self_reference = JDict [(''$ref'', JStr ''#'')]"

definition user_attributes :: "(string \<times> mapper) list" where
  "user_attributes =
     [(''name'', Mapper CAttributeMapper False False string_fragment []),
      (''$uri'', Mapper CAttributeMapper True False read_only_string_fragment []),
      (''tags'', integer_list_mapper),
      (''meta'', Mapper CAttributeMapper False False object_fragment [])]"

definition user_create_link :: link where
  "user_create_link =
     \<lparr> path = ''/user'', keys = [], http_method = ''POST'',
       schema = self_reference, target_schema = self_reference \<rparr>"

definition user_self_link :: link where
  "user_self_link =
     \<lparr> path = ''/user/{id}'', keys = [''id''], http_method = ''GET'',
       schema = JDict [], target_schema = self_reference \<rparr>"

definition user_update_link :: link where
  "user_update_link =
     \<lparr> path = ''/user/{id}'', keys = [''id''], http_method = ''PATCH'',
       schema = self_reference, target_schema = self_reference \<rparr>"

definition object_proxy :: "link \<Rightarrow> nat \<Rightarrow> proxy" where
  "object_proxy l i =
     Proxy \<lparr> kind = CObjectLinkProxy, p_link = l, p_binding = InstanceBinding i,
             p_attributes = [], p_kwargs = [], links_arg = JNull, collection = JNull,
             total = 0 \<rparr> []"

definition user :: "nat \<Rightarrow> json \<Rightarrow> json \<Rightarrow> resource" where
  "user i oid inst =
     \<lparr> r_attributes = user_attributes,
       type_links = [(''create'', user_create_link)],
       instance_links = [(''self'', user_self_link), (''update'', user_update_link)],
       r_id = oid, r_instance = inst,
       r_proxies = [(''self'', object_proxy user_self_link i), (''update'', object_proxy user_update_link i)] \<rparr>"

definition stored_user :: json where
  "stored_user =
     JDict [(''$uri'', JStr ''/user/7''), (''name'', JStr ''ann''), (''tags'', JList [JNull])]"

definition user_transport :: "request list \<Rightarrow> request \<Rightarrow> response" where
  "user_transport w r =
     \<lparr> status_ok = True, total_count = None, res_links = [],
       res_json =
         (if req_method r = ''GET'' then stored_user
          else case req_body r of
                 JDict kvs \<Rightarrow> JDict (AList.update ''$uri'' (JStr ''/user/7'') kvs)
               | v \<Rightarrow> v) \<rparr>"

definition user_url_format :: "string \<Rightarrow> (string \<times> json) list \<Rightarrow> error + string" where
  "user_url_format url kvs =
     (case map_of kvs ''id'' of
        None \<Rightarrow> Inr url
      | Some v \<Rightarrow> Inr (take (length url - 4) url @ example_str v))"

definition last_component :: "json \<Rightarrow> error + json" where
  "last_component u =
     (case u of
        JStr s \<Rightarrow> Inr (JStr (rev (takeWhile (\<lambda>c. c \<noteq> CHR ''/'') (rev s))))
      | _ \<Rightarrow> Inl TypeError)"

definition user_net :: net where
  "user_net =
     \<lparr> base_url = ''http://localhost'',
       transport = user_transport,
       dictionary_to_params = JDict,
       url_format = user_url_format,
       url_query = (\<lambda>url. Inr []),
       evaluate_ref = (\<lambda>uri it. Inr it),
       uri_id = last_component,
       attribute_value = (\<lambda>k oid inst. JNull),
       resource_repr = (\<lambda>ident inst. ''resource'') \<rparr>"

definition user_state :: "json \<Rightarrow> json \<Rightarrow> state" where
  "user_state oid inst = \<lparr> world = [], heap = (\<lambda>i. user i oid inst) \<rparr>"

text \<open>
  The same resource type when the description of its link \<open>create\<close> has the input
  schema \<open>sch\<close>; for a description without a schema \<open>factory\<close> passes
  \<open>{}\<close>.
\<close>

definition user_create_with :: "json \<Rightarrow> link" where
  "user_create_with sch = user_create_link\<lparr>schema := sch\<rparr>"

definition user_with :: "json \<Rightarrow> nat \<Rightarrow> json \<Rightarrow> json \<Rightarrow> resource" where
  "user_with sch i oid inst = (user i oid inst)\<lparr>type_links := [(''create'', user_create_with sch)]\<rparr>"

definition user_state_with :: "json \<Rightarrow> json \<Rightarrow> json \<Rightarrow> state" where
  "user_state_with sch oid inst = \<lparr> world = [], heap = (\<lambda>i. user_with sch i oid inst) \<rparr>"

definition array_fragment :: json where
  "array_fragment = JDict [(''type'', JStr ''array'')]"

text \<open>
  The value that the getter of a property works on: the cached value of the field, or
  the empty value \<open>ev\<close> of the attribute when the field is missing or \<open>None\<close>.
\<close>

definition raw_value :: "(string \<times> json) list \<Rightarrow> string \<Rightarrow> json \<Rightarrow> json" where
  "raw_value kvs name ev =
     (case map_of kvs name of None \<Rightarrow> ev | Some v \<Rightarrow> if v = JNull then ev else v)"


text \<open>
  What the specification says of a relation \<open>name\<close> with URL \<open>url\<close> found by
  the handler of the proxy \<open>p\<close>, read on the proxy \<open>p'\<close> after the handler: the
  name is an attribute holding a further list proxy, not yet fetched, with the link and
  the binding of \<open>p\<close>, whose accumulated arguments hold every query parameter of the
  URL, serialized through the property of that name if one is declared (the constructor
  keeps the keywords \<open>links\<close> and \<open>attributes\<close> to itself).
\<close>

definition seeded :: "env \<Rightarrow> proxy \<Rightarrow> proxy \<Rightarrow> string \<times> json \<Rightarrow> bool" where
  "seeded E p q kv =
     (fst kv = ''links'' \<or> fst kv = ''attributes''
      \<or> (case map_of (p_kwargs (core q)) (fst kv) of
            None \<Rightarrow> False
          | Some v' \<Rightarrow> serialize_attribute_value E p (fst kv) (snd kv) = Inr v'))"

definition exposes :: "env \<Rightarrow> net \<Rightarrow> proxy \<Rightarrow> proxy \<Rightarrow> string \<times> string \<Rightarrow> bool" where
  "exposes E N p p' rel =
     (case map_of (dyn p') (fst rel) of
        Some (Related q) \<Rightarrow>
          kind (core q) = CListLinkProxy \<and> p_link (core q) = p_link (core p)
          \<and> p_binding (core q) = p_binding (core p) \<and> collection (core q) = JNull
          \<and> (case url_query N (snd rel) of
                Inl e \<Rightarrow> False
              | Inr query \<Rightarrow> list_all (seeded E p q) query)
      | _ \<Rightarrow> False)"

text \<open>
  The query parameters of the URL of a relation are a dict: where the URL parses, their
  keys are distinct.
\<close>

definition query_is_dict :: "net \<Rightarrow> string \<times> string \<Rightarrow> bool" where
  "query_is_dict N rel =
     (case url_query N (snd rel) of
        Inl e \<Rightarrow> True
      | Inr query \<Rightarrow> distinct (map fst query))"

text \<open>A response of the example server without the count header, with a relation.\<close>

definition uncounted_response :: response where
  "uncounted_response =
     \<lparr> status_ok = True, total_count = None, res_links = [(''next'', page_url 2)],
       res_json = JList (page_items 1) \<rparr>"

text \<open>The response of the example server to the first request of the list proxy.\<close>

definition first_response :: response where
  "first_response =
     example_transport []
       \<lparr>req_method = ''GET'', req_url = ''http://localhost/item'', req_body = JNull,
          req_params = JDict []\<rparr>"

text \<open>A request of the example list link with the parameters \<open>kw\<close>.\<close>

definition page_request :: "(string \<times> json) list \<Rightarrow> request" where
  "page_request kw =
     \<lparr>req_method = ''GET'', req_url = ''http://localhost/item'', req_body = JNull,
        req_params = JDict kw\<rparr>"

declare drain.simps [code] getitem.simps [code]

text \<open>
  \<open>counted_page\<close> with the relation \<open>next\<close> exposed, and an iterator on a page at
  the position \<open>n\<close>.
\<close>

definition linked_page :: proxy where
  "linked_page =
     Proxy (core counted_page) (AList.update ''next'' (Related (page_proxy (JInt 2))) (dyn counted_page))"

definition iterator_at :: "proxy \<Rightarrow> nat \<Rightarrow> iterator" where
  "iterator_at p n = \<lparr>slice_link = Related p, pointer = n, it_total = 25\<rparr>"

section \<open>Properties of the schema attributes\<close>

lemmas keyword_defs =
  TYPE_KEY_def PROPERTIES_def ITEMS_def ONE_OF_def READ_ONLY_def ADDITIONAL_PROPERTIES_def
  REF_def URI_def URL_def

lemmas fragment_defs =
  integer_fragment_def number_fragment_def null_fragment_def read_only_integer_fragment_def
  read_only_untyped_fragment_def integer_list_fragment_def integer_number_union_def
  integer_null_union_def

lemmas mapper_defs =
  integer_mapper_def number_mapper_def null_mapper_def read_only_integer_mapper_def
  read_only_untyped_mapper_def integer_list_mapper_def integer_number_mapper_def
  integer_null_mapper_def

text \<open>The example mappers are what the constructor builds, in every environment.\<close>

lemma init_examples:
  "AttributeMapper_init E integer_fragment = Inr integer_mapper"
  "AttributeMapper_init E read_only_untyped_fragment = Inr read_only_untyped_mapper"
  "AttributeMapper_init E read_only_integer_fragment = Inr read_only_integer_mapper"
  "AttributeMapper_init E integer_list_fragment = Inr integer_list_mapper"
  "AttributeMapper_init E integer_number_union = Inr integer_number_mapper"
  "AttributeMapper_init E integer_null_union = Inr integer_null_mapper"
  by (simp_all add: fragment_defs mapper_defs keyword_defs)

lemmas serialize_unfold =
  serialize.simps AttributeMapper_serialize.simps empty_value_def
  AttributeMapper_empty_value_def Items_empty_value_def required_def

text \<open>
  C8, as the claim states it, fails: the empty value \<open>None\<close> of a read-only
  attribute is validated like any other value, and \<open>None\<close> is not of type integer.
\<close>

theorem read_only_null_counterexample:
  "AttributeMapper_init example_env read_only_integer_fragment = Inr read_only_integer_mapper
   \<and> serialize example_env read_only_integer_mapper JNull True = Inl ValidationError"
  by (simp add: serialize_unfold example_env_def fragment_defs mapper_defs keyword_defs)

text \<open>
  C8, amended: the integer attribute serializes \<open>5\<close> to \<open>5\<close> when the validator
  accepts it; a read-only scalar attribute serializes \<open>None\<close> to \<open>None\<close> when
  validation is off or the validator accepts \<open>None\<close> for the fragment, and raises the
  validation error otherwise.
\<close>

theorem scalar_serialize:
  "(type_for E (JStr ''integer'') = Inr [TInt] \<and> validate E (JInt 5) integer_fragment \<longrightarrow>
      serialize E integer_mapper (JInt 5) True = Inr (JInt 5))
   \<and> (cls m = CAttributeMapper \<and> read_only m \<longrightarrow>
      serialize E m JNull valid
        = (if valid \<and> \<not> validate E JNull (defn m) then Inl ValidationError else Inr JNull))"
  by (simp add: serialize_unfold types.simps fragment_defs mapper_defs keyword_defs)

theorem scalar_serialize_witness:
  "type_for example_env (JStr ''integer'') = Inr [TInt]
   \<and> validate example_env (JInt 5) integer_fragment
   \<and> serialize example_env integer_mapper (JInt 5) True = Inr (JInt 5)
   \<and> cls read_only_untyped_mapper = CAttributeMapper \<and> read_only read_only_untyped_mapper
   \<and> serialize example_env read_only_untyped_mapper JNull True = Inr JNull
   \<and> serialize example_env read_only_integer_mapper JNull False = Inr JNull"
  using scalar_serialize [of example_env read_only_untyped_mapper True]
        scalar_serialize [of example_env read_only_integer_mapper False]
  by (simp add: example_env_def fragment_defs mapper_defs keyword_defs)

text \<open>
  C3: for the list-of-integers attribute, \<open>serialize([1, 2, 3])\<close> is \<open>[1, 2, 3]\<close>
  and a value that is not a list fails the assertion, but \<open>serialize(None)\<close> fails it
  too, while \<open>empty_value\<close> is \<open>[]\<close>: \<open>required\<close> is true when the type set
  holds \<open>NoneType\<close>, so the guard \<open>iterable is None and self.required\<close> is false here.
\<close>

theorem items_serialize_null_raises:
  "serialize example_env integer_list_mapper (JList [JInt 1, JInt 2, JInt 3]) True
     = Inr (JList [JInt 1, JInt 2, JInt 3])
   \<and> serialize example_env integer_list_mapper (JInt 7) True = Inl AssertionError
   \<and> required example_env integer_list_mapper = Inr False
   \<and> empty_value example_env integer_list_mapper = Inr (JList [])
   \<and> serialize example_env integer_list_mapper JNull True = Inl AssertionError"
  by (simp add: serialize_unfold types.simps example_env_def fragment_defs mapper_defs keyword_defs)

text \<open>
  For every \<open>Items\<close> object whose type set is defined, \<open>serialize(None)\<close> either
  fails the assertion or returns \<open>[]\<close> where \<open>empty_value\<close> is \<open>None\<close>.
\<close>

lemma items_serialize_null_cases:
  "cls m = CItems \<Longrightarrow> types E m = Inr ts \<Longrightarrow>
     serialize E m JNull valid = (if TNone \<in> set ts then Inr (JList []) else Inl AssertionError)
     \<and> empty_value E m = (if TNone \<in> set ts then Inr JNull else Inr (JList []))"
  by (simp add: serialize_unfold)

text \<open>
  C2: a union of integer and number, which is not nullable, given \<open>[1, 2]\<close>: both
  variants raise, and \<open>serialize\<close> returns \<open>None\<close> instead of raising the aggregate.
  The nullable union of integer and null raises it, with one cause per variant.
\<close>

theorem oneof_serialize_silent:
  "serialize example_env integer_mapper (JList [JInt 1, JInt 2]) True = Inl TypeError
   \<and> serialize example_env number_mapper (JList [JInt 1, JInt 2]) True = Inl TypeError
   \<and> types example_env integer_number_mapper = Inr [TInt, TFloat]
   \<and> serialize example_env integer_number_mapper (JList [JInt 1, JInt 2]) True = Inr JNull
   \<and> types example_env integer_null_mapper = Inr [TInt, TNone]
   \<and> serialize example_env integer_null_mapper (JList [JInt 1, JInt 2]) True
       = Inl (OneOfException [TypeError, TypeError])"
  by (simp add: serialize_unfold types.simps example_env_def fragment_defs mapper_defs keyword_defs)

text \<open>
  C10: \<open>Items.resolve\<close> on \<open>None\<close> raises a type error for every \<open>Items\<close>
  object: the guard compares the type \<open>list\<close> with \<open>None\<close>, so the iteration is
  always reached, and \<open>None\<close> is not iterable. No value is returned, so in particular
  not the empty value.
\<close>

theorem items_resolve_null:
  "cls m = CItems \<longrightarrow>
     PyType TList \<noteq> PyNone
     \<and> resolve E m JNull = Inl TypeError
     \<and> (\<forall>v. resolve E m JNull \<noteq> Inr v)"
  by (simp add: resolve.simps Items_resolve_def)

theorem items_resolve_null_witness:
  "cls integer_list_mapper = CItems
   \<and> resolve example_env integer_list_mapper JNull = Inl TypeError
   \<and> empty_value example_env integer_list_mapper = Inr (JList [])"
  using items_resolve_null [of integer_list_mapper example_env]
  by (simp add: serialize_unfold types.simps example_env_def fragment_defs mapper_defs keyword_defs)

section \<open>Properties of the proxies\<close>

lemmas example_defs =
  example_env_def example_net_def list_link_def list_proxy_def fetched_page_def page_proxy_def
  fetched_page_with_def initial_state_def list_proxy_with_def counted_page_def

text \<open>The example proxy is what binding the example link to a resource class gives.\<close>

lemma bind_list_link: "bind example_env list_link ClassBinding = Inr list_proxy"
  by (simp add: bind_def proxy_kind_def return_type_def schema_type_def new_bound_proxy_def
      parse_schema_def example_defs mapper_defs fragment_defs keyword_defs)

text \<open>
  Whenever the accessor gets as far as its value, the accumulated arguments of the proxy
  it was called on hold that value afterwards.
\<close>

lemma accessor_original_kwargs:
  "accessor_value E p prop args kwargs = Inr val \<Longrightarrow>
     p_kwargs (core (fst (accessor E p prop args kwargs))) = AList.update prop val (p_kwargs (core p))"
  by (simp add: accessor_def Let_def)

text \<open>
  C5: the accessor \<open>page\<close> of the example proxy, called with \<open>2\<close>, returns a new
  list proxy with the same link and binding and the arguments \<open>{page: 2}\<close>, but the
  proxy it was called on holds \<open>{page: 2}\<close> as well afterwards, and is not the proxy
  it was; the accessor \<open>per_page\<close> called on it then yields both arguments.
\<close>

theorem accessor_mutates_original:
  "accessor example_env list_proxy ''page'' [JInt 2] []
     = (list_proxy_with [(''page'', JInt 2)], Inr (list_proxy_with [(''page'', JInt 2)]))
   \<and> list_proxy_with [(''page'', JInt 2)] \<noteq> list_proxy
   \<and> p_kwargs (core list_proxy) = []
   \<and> p_link (core (list_proxy_with [(''page'', JInt 2)])) = p_link (core list_proxy)
   \<and> p_binding (core (list_proxy_with [(''page'', JInt 2)])) = p_binding (core list_proxy)
   \<and> accessor example_env (list_proxy_with [(''page'', JInt 2)]) ''per_page'' [JInt 10] []
     = (list_proxy_with [(''page'', JInt 2), (''per_page'', JInt 10)],
        Inr (list_proxy_with [(''page'', JInt 2), (''per_page'', JInt 10)]))"
  by (simp add: accessor_def accessor_value_def proxy_kind_def return_type_def schema_type_def
      new_bound_proxy_def parse_schema_def serialize_unfold types.simps Let_def
      example_defs mapper_defs fragment_defs keyword_defs)

text \<open>An index that is a float never selects an element, and the recursion of
  \<open>__getitem__\<close> only ever passes a float on.\<close>

lemma float_index_element: "\<exists>e. getitem_element N p (JFloat f) = Inl e"
  by (cases "collection (core p)") (simp_all add: getitem_element_def)

lemma getitem_page_index:
  "getitem_page E p index = (p', Inr (q, index')) \<Longrightarrow> \<exists>f. index' = JFloat f"
  by (auto simp: getitem_page_def Let_def split: option.splits sum.splits prod.splits)

lemma getitem_step_float:
  "getitem_step E N s p (JFloat f) = (Done r, p', s') \<Longrightarrow> \<exists>e. r = Inl e"
  using float_index_element [of N _ f]
  by (auto simp: getitem_step_def split: prod.splits option.splits sum.splits bool.splits)

lemma getitem_step_recurse:
  "getitem_step E N s p index = (Recurse q index', p', s') \<Longrightarrow> \<exists>f. index' = JFloat f"
  by (auto simp: getitem_step_def split: prod.splits option.splits sum.splits bool.splits
      dest: getitem_page_index)

lemma getitem_float_never_returns:
  "getitem E N s p index = Some y \<Longrightarrow> index = JFloat f \<Longrightarrow> \<exists>e. fst y = Inl e"
proof (induction arbitrary: f rule: getitem.raw_induct [rotated 1, consumes 1, case_names step])
  case (step getitem' E N s p index y)
  show ?case
  proof (cases "getitem_step E N s p index")
    case (fields out p' s')
    show ?thesis
    proof (cases out)
      case (Done r)
      with step fields show ?thesis
        by (auto dest: getitem_step_float)
    next
      case (Recurse q index')
      with fields obtain g where g: "index' = JFloat g"
        by (auto dest: getitem_step_recurse)
      from step(2) fields Recurse obtain y'
        where y': "getitem' E N s' q index' = Some y'" and "fst y = fst y'"
        by (auto simp: bind_eq_Some_conv)
      with step(1) [OF y' g] show ?thesis by simp
    qed
  qed
qed

text \<open>
  Once \<open>__getitem__\<close> takes the branch of the pages, it returns no element: it raises,
  or does not return.
\<close>

lemma getitem_paged_never_returns:
  assumes "getitem E N s p index = Some y"
    and "getitem_step E N s p index = (Recurse q index', p', s')"
  shows "\<exists>e. fst y = Inl e"
proof -
  from assms(2) obtain g where g: "index' = JFloat g"
    by (auto dest: getitem_step_recurse)
  from assms obtain y' where y': "getitem E N s' q index' = Some y'" and "fst y = fst y'"
    by (subst (asm) getitem.simps) (auto simp: bind_eq_Some_conv)
  with getitem_float_never_returns [OF y' g] show ?thesis by simp
qed

text \<open>
  C1: index 23 on the proxy with \<open>per_page = 10\<close> that holds one page of 10 items and
  the total 10: the page value is the float \<open>23 / 10\<close> of the true division, never
  the int 2, and the index of the recursive call is a float, never the int 3. (When the
  division raises, so does the access.) With the total 25 of a count header, 23 is not
  greater than the total and the subscript of the page of 10 items raises.
\<close>

theorem getitem_true_division:
  "getitem_step E N s fetched_page (JInt 23) =
     (case num_truediv E (NInt 23) (NInt 10) of
        Inl e \<Rightarrow> (Done (Inl e), fetched_page, s)
      | Inr page \<Rightarrow>
          (Recurse (page_proxy (JFloat page))
             (JFloat (num_sub_float E (NInt 23) (float_mul E page (NInt 10)))),
           fetched_page_with (JFloat page), s))
   \<and> getitem_step E N s fetched_page (JInt 23) \<noteq> (Recurse (page_proxy (JInt 2)) (JInt 3), p', s')
   \<and> getitem_step E N s counted_page (JInt 23) = (Done (Inl IndexError), counted_page, s)"
  by (simp add: getitem_step_def ensure_collection_def index_gt_def getitem_page_def
      getitem_element_def seq_index_def page_items_def
      new_bound_proxy_def parse_schema_def Let_def example_defs mapper_defs fragment_defs
      keyword_defs split: sum.splits)

section \<open>Properties of the resources\<close>

lemmas user_defs =
  user_def user_state_def user_net_def user_attributes_def user_create_link_def
  user_self_link_def user_update_link_def object_proxy_def stored_user_def user_transport_def
  user_url_format_def last_component_def string_fragment_def read_only_string_fragment_def
  object_fragment_def self_reference_def user_create_with_def user_with_def
  user_state_with_def array_fragment_def

lemmas resolve_unfold = resolve.simps Items_resolve_def AttributeMapper_resolve_def

text \<open>The example resource is what \<open>__init__\<close> builds, new or with an identity.\<close>

lemma init_user:
  "Resource_init example_env user_attributes [(''create'', user_create_link)]
     [(''self'', user_self_link), (''update'', user_update_link)] i JNull inst
     = Inr (user i JNull (JDict []))"
  "Resource_init example_env user_attributes [(''create'', user_create_link)]
     [(''self'', user_self_link), (''update'', user_update_link)] i (JStr ''7'') inst
     = Inr (user i (JStr ''7'') inst)"
  by (simp_all add: Resource_init_def bind_def proxy_kind_def return_type_def schema_type_def
      new_bound_proxy_def parse_schema_def user_defs example_env_def keyword_defs)

text \<open>
  C7, as the claim states it, fails: for the user whose cached \<open>tags\<close> are
  \<open>[None]\<close>, the getter returns the resolved value \<open>[[]]\<close>, and the cache still
  holds \<open>[None]\<close>: what is written back is the raw value.
\<close>

theorem getter_caches_raw_counterexample:
  "fst (get_property example_env user_net (user_state (JStr ''7'') stored_user) 0 ''tags'')
     = Inr (JList [JList []])
   \<and> py_get (r_instance (heap (snd (get_property example_env user_net
                 (user_state (JStr ''7'') stored_user) 0 ''tags'')) 0)) ''tags''
     = Inr (JList [JNull])"
  by (simp add: get_property_def Resource_instance_def set_instance_def py_get_def
      resolve_unfold serialize_unfold types.simps user_defs example_env_def mapper_defs
      fragment_defs keyword_defs)

text \<open>
  C7, amended: the getter of a declared property works on the loaded instance data, which
  it first fetches through the relation \<open>self\<close> when there is none; it takes the raw
  field, or the empty value of the attribute when the field is missing, writes that raw
  value back into the cache, and returns what \<open>resolve\<close> makes of it.
\<close>

theorem getter_caches_raw:
  "(map_of (r_attributes (heap s i)) name = Some attr \<and> empty_value E attr = Inr ev
      \<and> r_instance (heap s i) = JDict kvs \<longrightarrow>
        get_property E N s i name
          = (resolve E attr (raw_value kvs name ev),
             set_instance s i (JDict (AList.update name (raw_value kvs name ev) kvs))))
   \<and> (map_of (r_attributes (heap s i)) name = Some attr \<and> empty_value E attr = Inr ev
      \<and> r_instance (heap s i) = JNull \<and> refresh E N s i = (None, s')
      \<and> r_instance (heap s' i) = JDict kvs \<longrightarrow>
        get_property E N s i name
          = (resolve E attr (raw_value kvs name ev),
             set_instance s' i (JDict (AList.update name (raw_value kvs name ev) kvs))))"
  by (auto simp add: get_property_def Resource_instance_def py_get_def raw_value_def
      split: option.splits)

lemmas call_unfold =
  refresh_def link_attr_def proxy_call_def Link_call_def generate_url_def strip_slash_def
  Resource_id_def getattr_id_def property_read_def process_args_def arg_body_def input_type_def schema_type_def do_request_def
  store_proxy_def set_instance_def

theorem getter_caches_raw_witness:
  "get_property example_env user_net (user_state (JStr ''7'') stored_user) 0 ''meta''
     = (Inr (JDict []),
        set_instance (user_state (JStr ''7'') stored_user) 0
          (JDict [(''$uri'', JStr ''/user/7''), (''name'', JStr ''ann''), (''tags'', JList [JNull]),
                  (''meta'', JDict [])]))
   \<and> fst (get_property example_env user_net (user_state (JStr ''7'') JNull) 0 ''name'')
     = Inr (JStr ''ann'')
   \<and> world (snd (get_property example_env user_net (user_state (JStr ''7'') JNull) 0 ''name''))
     = [\<lparr>req_method = ''GET'', req_url = ''http://localhost/user/7'', req_body = JNull,
          req_params = JDict []\<rparr>]"
  using getter_caches_raw [of "user_state (JStr ''7'') stored_user" 0 "''meta''"
          "Mapper CAttributeMapper False False object_fragment []" example_env "JDict []"
          "[(''$uri'', JStr ''/user/7''), (''name'', JStr ''ann''), (''tags'', JList [JNull])]"
          user_net]
  by (simp add: get_property_def Resource_instance_def call_unfold py_get_def raw_value_def
      resolve_unfold serialize_unfold types.simps user_defs example_env_def mapper_defs
      fragment_defs keyword_defs)


























section \<open>Properties of the list proxy\<close>

text \<open>
  The loop over the query parameters changes nothing of the proxy but its accumulated
  arguments, and leaves each parameter in them, serialized.
\<close>


lemma seed_kwargs_core:
  "seed_kwargs E p kvs = (p1, r) \<Longrightarrow>
     dyn p1 = dyn p \<and> kind (core p1) = kind (core p) \<and> p_link (core p1) = p_link (core p)
     \<and> p_binding (core p1) = p_binding (core p) \<and> p_attributes (core p1) = p_attributes (core p)
     \<and> links_arg (core p1) = links_arg (core p) \<and> collection (core p1) = collection (core p)
     \<and> total (core p1) = total (core p)"
proof (induction kvs arbitrary: p)
  case Nil
  then show ?case by simp
next
  case (Cons kv kvs)
  obtain key v where kv: "kv = (key, v)" by (cases kv)
  show ?case
  proof (cases "serialize_attribute_value E p key v")
    case (Inl e)
    with Cons.prems kv show ?thesis by simp
  next
    case (Inr v')
    let ?p = "Proxy ((core p)\<lparr>p_kwargs := AList.update key v' (p_kwargs (core p))\<rparr>) (dyn p)"
    from Cons.prems kv Inr have "seed_kwargs E ?p kvs = (p1, r)" by simp
    from Cons.IH [OF this] show ?thesis by simp
  qed
qed

lemma seed_kwargs_other:
  "seed_kwargs E p kvs = (p1, r) \<Longrightarrow> key \<notin> fst ` set kvs \<Longrightarrow>
     map_of (p_kwargs (core p1)) key = map_of (p_kwargs (core p)) key"
proof (induction kvs arbitrary: p)
  case Nil
  then show ?case by simp
next
  case (Cons kv kvs)
  obtain k v where kv: "kv = (k, v)" by (cases kv)
  show ?case
  proof (cases "serialize_attribute_value E p k v")
    case (Inl e)
    with Cons.prems kv show ?thesis by simp
  next
    case (Inr v')
    let ?p = "Proxy ((core p)\<lparr>p_kwargs := AList.update k v' (p_kwargs (core p))\<rparr>) (dyn p)"
    from Cons.prems kv Inr have "seed_kwargs E ?p kvs = (p1, r)" by simp
    from Cons.IH [OF this] Cons.prems(2) kv show ?thesis
      by (simp add: update_conv')
  qed
qed

lemma seed_kwargs_lookup:
  "seed_kwargs E p kvs = (p1, None) \<Longrightarrow> distinct (map fst kvs) \<Longrightarrow> (key, v) \<in> set kvs \<Longrightarrow>
     \<exists>v'. serialize_attribute_value E p key v = Inr v' \<and> map_of (p_kwargs (core p1)) key = Some v'"
proof (induction kvs arbitrary: p)
  case Nil
  then show ?case by simp
next
  case (Cons kv kvs)
  obtain k w where kv: "kv = (k, w)" by (cases kv)
  from Cons.prems(1) kv obtain w' where w': "serialize_attribute_value E p k w = Inr w'"
    by (cases "serialize_attribute_value E p k w") auto
  let ?p = "Proxy ((core p)\<lparr>p_kwargs := AList.update k w' (p_kwargs (core p))\<rparr>) (dyn p)"
  from Cons.prems(1) kv w' have rest: "seed_kwargs E ?p kvs = (p1, None)" by simp
  from Cons.prems(2) kv have d: "distinct (map fst kvs)" and notin: "k \<notin> fst ` set kvs" by auto
  have same: "serialize_attribute_value E ?p key v = serialize_attribute_value E p key v"
    by (simp add: serialize_attribute_value_def)
  show ?case
  proof (cases "(key, v) = (k, w)")
    case True
    with seed_kwargs_other [OF rest notin] w' show ?thesis
      by (simp add: update_conv')
  next
    case False
    with Cons.prems(3) kv have "(key, v) \<in> set kvs" by auto
    from Cons.IH [OF rest d this] same show ?thesis by simp
  qed
qed

lemma new_bound_proxy_fields:
  "new_bound_proxy E c l b attrs kw = Inr q \<Longrightarrow>
     kind (core q) = c \<and> p_link (core q) = l \<and> p_binding (core q) = b
     \<and> collection (core q) = JNull
     \<and> p_kwargs (core q) = AList.delete ''attributes'' (if c = CListLinkProxy then AList.delete ''links'' kw else kw)"
  by (auto simp: new_bound_proxy_def Let_def split: if_splits sum.splits prod.splits)


lemma serialize_attribute_value_cong:
  "p_attributes (core p2) = p_attributes (core p) \<Longrightarrow>
     serialize_attribute_value E p2 = serialize_attribute_value E p"
  by (intro ext) (simp add: serialize_attribute_value_def)

lemma seeded_cong:
  "p_attributes (core p2) = p_attributes (core p) \<Longrightarrow> seeded E p2 = seeded E p"
  by (intro ext) (auto simp: seeded_def serialize_attribute_value_cong [of p2 p] split: option.splits)

lemma exposes_cong:
  "p_attributes (core p2) = p_attributes (core p) \<Longrightarrow> p_link (core p2) = p_link (core p) \<Longrightarrow>
     p_binding (core p2) = p_binding (core p) \<Longrightarrow> exposes E N p2 p' rel = exposes E N p p' rel"
  by (auto simp: exposes_def seeded_cong [of p2 p] split: option.splits dynattr.splits sum.splits)

lemma create_link_result:
  assumes "create_link E N p name url = (p2, None)"
    and "query_is_dict N (name, url)"
  shows "exposes E N p p2 (name, url)
         \<and> (\<forall>n. n \<noteq> name \<longrightarrow> map_of (dyn p2) n = map_of (dyn p) n)
         \<and> p_link (core p2) = p_link (core p) \<and> p_binding (core p2) = p_binding (core p)
         \<and> p_attributes (core p2) = p_attributes (core p) \<and> total (core p2) = total (core p)"
proof -
  from assms(1) obtain query where query: "url_query N url = Inr query"
    by (cases "url_query N url") (simp_all add: create_link_def)
  with assms(2) have dq: "distinct (map fst query)"
    by (simp add: query_is_dict_def)
  from assms(1) query obtain p1 q where
    seed: "seed_kwargs E p query = (p1, None)"
    and new: "new_bound_proxy E CListLinkProxy (p_link (core p1)) (p_binding (core p1)) None
                (p_kwargs (core p1)) = Inr q"
    and p2: "p2 = Proxy (core p1) (AList.update name (Related q) (dyn p1))"
    by (auto simp: create_link_def Let_def split: prod.splits option.splits sum.splits json.splits)
  note c = seed_kwargs_core [OF seed]
  note f = new_bound_proxy_fields [OF new]
  have "seeded E p q kv" if "kv \<in> set query" for kv
  proof (cases "fst kv = ''links'' \<or> fst kv = ''attributes''")
    case True
    then show ?thesis by (auto simp: seeded_def)
  next
    case False
    from that have "(fst kv, snd kv) \<in> set query" by simp
    from seed_kwargs_lookup [OF seed dq this] obtain v' where
      "serialize_attribute_value E p (fst kv) (snd kv) = Inr v'"
      "map_of (p_kwargs (core p1)) (fst kv) = Some v'" by blast
    with False f show ?thesis
      by (simp add: seeded_def delete_conv')
  qed
  then have "list_all (seeded E p q) query"
    by (simp add: list_all_iff)
  with p2 c f query show ?thesis
    by (simp add: exposes_def update_conv')
qed

lemma create_links_result:
  "create_links E N p rels = (p', None) \<Longrightarrow> distinct (map fst rels) \<Longrightarrow>
   list_all (query_is_dict N) rels \<Longrightarrow>
     list_all (exposes E N p p') rels
     \<and> (\<forall>n. n \<notin> fst ` set rels \<longrightarrow> map_of (dyn p') n = map_of (dyn p) n)
     \<and> p_link (core p') = p_link (core p) \<and> p_binding (core p') = p_binding (core p)
     \<and> p_attributes (core p') = p_attributes (core p) \<and> total (core p') = total (core p)"
proof (induction rels arbitrary: p)
  case Nil
  then show ?case by simp
next
  case (Cons rel rels)
  obtain name url where rel: "rel = (name, url)" by (cases rel)
  from Cons.prems(1) rel obtain p2 where
    one: "create_link E N p name url = (p2, None)"
    and rest: "create_links E N p2 rels = (p', None)"
    by (auto split: prod.splits option.splits)
  from Cons.prems(3) rel have du: "query_is_dict N (name, url)"
    and drest: "list_all (query_is_dict N) rels"
    by simp_all
  from Cons.prems(2) rel have d: "distinct (map fst rels)" and notin: "name \<notin> fst ` set rels"
    by auto
  note r1 = create_link_result [OF one du]
  note IH = Cons.IH [OF rest d drest]
  from r1 have c2: "p_attributes (core p2) = p_attributes (core p)"
    "p_link (core p2) = p_link (core p)" "p_binding (core p2) = p_binding (core p)"
    by simp_all
  from IH have "list_all (exposes E N p p') rels"
    by (simp add: exposes_cong [OF c2])
  moreover from IH notin have "map_of (dyn p') name = map_of (dyn p2) name"
    by simp
  with r1 c2 have "exposes E N p p' (name, url)"
    by (simp add: exposes_def)
  moreover from IH r1 have "\<forall>n. n \<notin> fst ` set (rel # rels) \<longrightarrow> map_of (dyn p') n = map_of (dyn p) n"
    using rel by auto
  ultimately show ?case using IH r1 rel by simp
qed

text \<open>
  C9, as the claim states it, fails: for a response without the count header, the lookup
  of the header raises the \<open>KeyError\<close> that skips the discovery of the relations;
  the relation \<open>next\<close> of the response is not exposed.
\<close>

theorem handler_without_count_counterexample:
  "res_links uncounted_response = [(''next'', page_url 2)]
   \<and> ListLinkProxy_handler example_env example_net list_proxy uncounted_response
     = (Proxy ((core list_proxy)\<lparr>total := 10\<rparr>) (dyn list_proxy), Inr (JList (page_items 1)))
   \<and> map_of (dyn (fst (ListLinkProxy_handler example_env example_net list_proxy uncounted_response)))
        ''next'' = None"
  by (simp add: ListLinkProxy_handler_def handler_fallback_def uncounted_response_def
      page_items_def example_defs)

text \<open>
  C9, amended: without the count header the total is the length of the parsed response
  and no relation is exposed. With a count header that \<open>int()\<close> parses, and when the
  construction of the relation proxies raises nothing, the total is the value of the header
  and each relation of the response other than \<open>self\<close> is exposed as an attribute
  holding a further list proxy seeded from the query parameters of its URL. The relations
  and the query parameters are dicts: their keys are distinct.
\<close>

theorem handler_total_and_links:
  "(total_count res = None \<and> py_len (res_json res) = Inr n \<longrightarrow>
       ListLinkProxy_handler E N p res
         = (Proxy ((core p)\<lparr>total := int n\<rparr>) (dyn p), Inr (res_json res)))
   \<and> (total_count res = Some h \<and> int_of_str E h = Some m
       \<and> create_links E N (Proxy ((core p)\<lparr>total := m\<rparr>) (dyn p)) (res_links res) = (p', None)
       \<and> distinct (map fst (res_links res))
       \<and> list_all (query_is_dict N) (res_links res)
     \<longrightarrow> ListLinkProxy_handler E N p res = (p', Inr (res_json res))
         \<and> total (core p') = m
         \<and> list_all (exposes E N p p') (filter (\<lambda>rel. fst rel \<noteq> ''self'') (res_links res)))"
proof (intro conjI impI)
  assume "total_count res = None \<and> py_len (res_json res) = Inr n"
  then show "ListLinkProxy_handler E N p res
         = (Proxy ((core p)\<lparr>total := int n\<rparr>) (dyn p), Inr (res_json res))"
    by (simp add: ListLinkProxy_handler_def handler_fallback_def)
next
  let ?p0 = "Proxy ((core p)\<lparr>total := m\<rparr>) (dyn p)"
  assume a: "total_count res = Some h \<and> int_of_str E h = Some m
       \<and> create_links E N ?p0 (res_links res) = (p', None)
       \<and> distinct (map fst (res_links res))
       \<and> list_all (query_is_dict N) (res_links res)"
  then have cl: "create_links E N ?p0 (res_links res) = (p', None)"
    and d: "distinct (map fst (res_links res))"
    and dq: "list_all (query_is_dict N) (res_links res)"
    by blast+
  note r = create_links_result [OF cl d dq]
  from a show "ListLinkProxy_handler E N p res = (p', Inr (res_json res))"
    by (simp add: ListLinkProxy_handler_def)
  from r show "total (core p') = m" by simp
  have "exposes E N ?p0 p' = exposes E N p p'"
    by (intro ext) (simp add: exposes_cong [of ?p0 p])
  with r have "list_all (exposes E N p p') (res_links res)"
    by simp
  then show "list_all (exposes E N p p') (filter (\<lambda>rel. fst rel \<noteq> ''self'') (res_links res))"
    by (simp add: list_all_iff)
qed

theorem handler_total_and_links_witness:
  "ListLinkProxy_handler example_env example_net list_proxy uncounted_response
     = (Proxy ((core list_proxy)\<lparr>total := 10\<rparr>) (dyn list_proxy), Inr (JList (page_items 1)))
   \<and> res_links first_response = [(''self'', page_url 1), (''next'', page_url 2)]
   \<and> total (core (fst (ListLinkProxy_handler example_env example_net list_proxy first_response))) = 25
   \<and> map_of (dyn (fst (ListLinkProxy_handler example_env example_net list_proxy first_response))) ''next''
     = Some (Related (list_proxy_with [(''page'', JInt 2), (''per_page'', JInt 10)]))"
  using handler_total_and_links [of uncounted_response 10 example_env example_net list_proxy]
    handler_total_and_links [of first_response _ example_env example_net list_proxy "''25''" 25
      "fst (ListLinkProxy_handler example_env example_net list_proxy first_response)"]
  by (simp add: ListLinkProxy_handler_def handler_fallback_def create_link_def
      serialize_attribute_value_def new_bound_proxy_def parse_schema_def Let_def
      uncounted_response_def first_response_def example_transport_def requested_page_def
      example_url_query_def query_is_dict_def page_url_def page_items_def str_int_def
      str_nat.simps digit_val_def serialize_unfold types.simps
      example_defs mapper_defs fragment_defs keyword_defs)

text \<open>
  The handler does not keep the relation \<open>self\<close> out: the \<open>pop\<close> acts on a
  dict of its own, and the first response of the example server leaves the proxy with an
  attribute \<open>self\<close> as well, a list proxy with the arguments the proxy had.
\<close>

lemma handler_exposes_self:
  "map_of (dyn (fst (ListLinkProxy_handler example_env example_net list_proxy first_response))) ''self''
     = Some (Related (list_proxy_with []))"
  by (simp add: ListLinkProxy_handler_def handler_fallback_def create_link_def
      serialize_attribute_value_def new_bound_proxy_def parse_schema_def Let_def
      first_response_def example_transport_def requested_page_def
      example_url_query_def query_is_dict_def page_url_def page_items_def str_int_def
      str_nat.simps digit_val_def serialize_unfold types.simps
      example_defs mapper_defs fragment_defs keyword_defs)

section \<open>Properties of the page iterator\<close>

text \<open>On a page that is loaded, its length and its elements are read without a request.\<close>


lemma slice_size_loaded:
  "collection (core p) = JList xs \<Longrightarrow> slice_size E N s p = (Inr (length xs), p, s)"
  by (simp add: slice_size_def ensure_collection_def)

lemma getitem_loaded:
  assumes "collection (core p) = JList xs" and "i < length xs" and "int i \<le> total (core p)"
  shows "getitem E N s p (JInt (int i)) = Some (getitem_element N p (JInt (int i)), p, s)"
  using assms
  by (subst getitem.simps) (simp add: getitem_step_def ensure_collection_def index_gt_def)

lemma getitem_element_loaded:
  assumes "collection (core p) = JList xs" and "i < length xs"
    and "p_binding (core p) \<noteq> NoBinding"
    and "py_subscript (xs ! i) (JStr URI) = Inr uri"
  shows "getitem_element N p (JInt (int i)) = evaluate_ref N uri (xs ! i)"
  using assms by (simp add: getitem_element_def seq_index_def)

text \<open>
  C4: the iterator starts at the relation \<open>first\<close> of the proxy if there is one,
  else at the proxy itself, with the pointer at zero; on a loaded page it yields the
  element under the pointer and moves the pointer by one, without a request; when the
  pointer has reached the length of the page it moves to the relation \<open>next\<close> and
  resets the pointer to zero, or, without that relation, raises \<open>StopIteration\<close>,
  which ends the loop. Against the example server (count header 25, pages of 10, a
  relation \<open>next\<close> on pages 1 and 2) the iteration returns the 25 items in order
  after exactly three requests, for the pages 1, 2 and 3 in that order.
\<close>

theorem iterator_pages:
  "(map_of (dyn p) ''first'' = Some (Related q) \<and> builtin_len E N s q = (Inr n, q', s')
      \<longrightarrow> ListLinkIterator_init E N s p
            = (Inr \<lparr>slice_link = Related q', pointer = 0, it_total = n\<rparr>, s'))
   \<and> (map_of (dyn p) ''first'' = None \<and> builtin_len E N s p = (Inr n, q', s')
      \<longrightarrow> ListLinkIterator_init E N s p
            = (Inr \<lparr>slice_link = Related q', pointer = 0, it_total = n\<rparr>, s'))
   \<and> (slice_link it = Related p \<and> collection (core p) = JList xs \<and> pointer it < length xs
       \<and> int (pointer it) \<le> total (core p) \<and> p_binding (core p) \<noteq> NoBinding
       \<and> py_subscript (xs ! pointer it) (JStr URI) = Inr uri
       \<and> evaluate_ref N uri (xs ! pointer it) = Inr v
      \<longrightarrow> ListLinkIterator_next E N s it = Some (Inr v, it\<lparr>pointer := pointer it + 1\<rparr>, s))
   \<and> (slice_link it = Related p \<and> collection (core p) = JList xs \<and> length xs \<le> pointer it
       \<and> map_of (dyn p) ''next'' = Some (Related q)
      \<longrightarrow> advance E N s it = (None, it\<lparr>slice_link := Related q, pointer := 0\<rparr>, s))
   \<and> (slice_link it = Related p \<and> collection (core p) = JList xs \<and> length xs \<le> pointer it
       \<and> map_of (dyn p) ''next'' = None
      \<longrightarrow> ListLinkIterator_next E N s it = Some (Inl StopIteration, it, s)
          \<and> drain E N s it acc = Some (Inr acc, it, s))
   \<and> map_option (\<lambda>(r, s). (r, world s)) (iterate example_env example_net initial_state list_proxy)
       = Some (Inr (map item [1 ..< 26]),
               [page_request [],
                page_request [(''page'', JInt 2), (''per_page'', JInt 10)],
                page_request [(''page'', JInt 3), (''per_page'', JInt 10)]])
   \<and> length (map item [1 ..< 26]) = 25"
proof (intro conjI impI)
  assume "map_of (dyn p) ''first'' = Some (Related q) \<and> builtin_len E N s q = (Inr n, q', s')"
  then show "ListLinkIterator_init E N s p
            = (Inr \<lparr>slice_link = Related q', pointer = 0, it_total = n\<rparr>, s')"
    by (simp add: ListLinkIterator_init_def)
next
  assume "map_of (dyn p) ''first'' = None \<and> builtin_len E N s p = (Inr n, q', s')"
  then show "ListLinkIterator_init E N s p
            = (Inr \<lparr>slice_link = Related q', pointer = 0, it_total = n\<rparr>, s')"
    by (simp add: ListLinkIterator_init_def)
next
  assume a: "slice_link it = Related p \<and> collection (core p) = JList xs \<and> pointer it < length xs
       \<and> int (pointer it) \<le> total (core p) \<and> p_binding (core p) \<noteq> NoBinding
       \<and> py_subscript (xs ! pointer it) (JStr URI) = Inr uri
       \<and> evaluate_ref N uri (xs ! pointer it) = Inr v"
  then have adv: "advance E N s it = (None, it, s)"
    by (simp add: advance_def slice_size_loaded)
  from a have "getitem E N s p (JInt (int (pointer it))) = Some (Inr v, p, s)"
    by (simp add: getitem_loaded getitem_element_loaded)
  with a adv show "ListLinkIterator_next E N s it = Some (Inr v, it\<lparr>pointer := pointer it + 1\<rparr>, s)"
    by (simp add: ListLinkIterator_next_def)
next
  assume "slice_link it = Related p \<and> collection (core p) = JList xs \<and> length xs \<le> pointer it
       \<and> map_of (dyn p) ''next'' = Some (Related q)"
  then show "advance E N s it = (None, it\<lparr>slice_link := Related q, pointer := 0\<rparr>, s)"
    by (simp add: advance_def slice_size_loaded)
next
  assume a: "slice_link it = Related p \<and> collection (core p) = JList xs \<and> length xs \<le> pointer it
       \<and> map_of (dyn p) ''next'' = None"
  then have "advance E N s it = (Some StopIteration, it, s)"
    by (simp add: advance_def slice_size_loaded)
  then show n: "ListLinkIterator_next E N s it = Some (Inl StopIteration, it, s)"
    by (simp add: ListLinkIterator_next_def)
  then show "drain E N s it acc = Some (Inr acc, it, s)"
    by (subst drain.simps) simp
next
  show "map_option (\<lambda>(r, s). (r, world s)) (iterate example_env example_net initial_state list_proxy)
       = Some (Inr (map item [1 ..< 26]),
               [page_request [],
                page_request [(''page'', JInt 2), (''per_page'', JInt 10)],
                page_request [(''page'', JInt 3), (''per_page'', JInt 10)]])"
    by code_simp
next
  show "length (map item [1 ..< 26]) = 25" by simp
qed

theorem iterator_pages_witness:
  "ListLinkIterator_init example_env example_net initial_state counted_page
     = (Inr (iterator_at counted_page 0), initial_state)
   \<and> ListLinkIterator_next example_env example_net initial_state (iterator_at counted_page 3)
     = Some (Inr (item 4), iterator_at counted_page 4, initial_state)
   \<and> ListLinkIterator_next example_env example_net initial_state (iterator_at counted_page 10)
     = Some (Inl StopIteration, iterator_at counted_page 10, initial_state)
   \<and> advance example_env example_net initial_state (iterator_at linked_page 10)
     = (None, iterator_at (page_proxy (JInt 2)) 0, initial_state)"
  using iterator_pages [where p = counted_page and E = example_env and N = example_net
      and s = initial_state and n = 25 and q' = counted_page and s' = initial_state
      and it = "iterator_at counted_page 3" and xs = "page_items 1"
      and uri = "JStr ''/item/4''" and v = "item 4"]
    iterator_pages [where p = counted_page and E = example_env and N = example_net
      and s = initial_state and it = "iterator_at counted_page 10" and xs = "page_items 1"]
    iterator_pages [where p = linked_page and E = example_env and N = example_net
      and s = initial_state and it = "iterator_at linked_page 10" and xs = "page_items 1"
      and q = "page_proxy (JInt 2)"]
  by (simp add: builtin_len_def ListLinkProxy_len_def ensure_collection_def iterator_at_def
      linked_page_def page_items_def item_def str_nat.simps example_defs keyword_defs)

end
